theory Spec2Isabelle
  imports Complex_Main "HOL-Library.Finite_Map"
begin

chapter \<open>The tracker of \<^verbatim>\<open>app.py\<close>: telemetry, track buffer, segments and figure\<close>

text \<open>
  A shallow embedding of \<^verbatim>\<open>src/app/app.py\<close>: the bounded deques of the track, the
  functions \<^verbatim>\<open>get_iss_telemetry\<close> and \<^verbatim>\<open>split_segments\<close>, and the Dash callback
  \<^verbatim>\<open>update_map\<close> as a function from the state of the deques and the replies of the two
  endpoints to its outputs (or the exception it raises) and the new state. The definitions
  come first, in the order of the source; the lemmas and the claims of the specification
  follow.
\<close>

section \<open>The track buffer\<close>

text \<open>
  \<^verbatim>\<open>app.py\<close> keeps the recent track in three module-level deques,
  \<^verbatim>\<open>TRACK_LAT\<close>, \<^verbatim>\<open>TRACK_LON\<close> and \<^verbatim>\<open>TRACK_VIS\<close>, each created as
  \<^verbatim>\<open>deque(maxlen=MAX_POINTS)\<close> with \<^verbatim>\<open>MAX_POINTS = 1080\<close>.
  A deque is modelled by the list of its elements, oldest first. \<^verbatim>\<open>append\<close> on a
  bounded deque puts the new element at the right end and, when the length then exceeds
  \<^verbatim>\<open>maxlen\<close>, removes one element from the left end.
\<close>

definition MAX_POINTS :: nat where
  "MAX_POINTS = 1080"

definition deque_append :: "nat \<Rightarrow> 'a list \<Rightarrow> 'a \<Rightarrow> 'a list" where
  "deque_append maxlen d x =
     (let d' = d @ [x] in if maxlen < length d' then tl d' else d')"

text \<open>A run of \<^verbatim>\<open>append\<close> calls on a deque that starts empty, as the module creates it.\<close>

definition appends :: "nat \<Rightarrow> 'a list \<Rightarrow> 'a list" where
  "appends maxlen xs = foldl (deque_append maxlen) [] xs"

section \<open>Floats and visibility values\<close>

text \<open>
  A Python float: a finite value, represented by the rational number it denotes (\<open>Finite 0\<close>
  is \<^verbatim>\<open>0.0\<close>), the negative zero \<^verbatim>\<open>-0.0\<close>, the two infinities, or \<^verbatim>\<open>nan\<close>.
\<close>

datatype pyfloat = Finite rat | NegZero | PosInf | NegInf | NaN

text \<open>
  The value of the \<^verbatim>\<open>visibility\<close> field as \<^verbatim>\<open>update_map\<close> keeps it: the program never
  converts it, so whatever \<^verbatim>\<open>resp.json()\<close> returned for the field reaches the deque, the
  track frame and \<^verbatim>\<open>color_map\<close>. Represented are a text, a JSON array (a \<^verbatim>\<open>list\<close>) and
  a JSON object (a \<^verbatim>\<open>dict\<close>, a finite map from its keys), the latter two built from such
  values; on these Python's \<^verbatim>\<open>!=\<close> is inequality of the values, whatever the order in
  which the keys of an object were written. A visibility that is \<^verbatim>\<open>null\<close>, a boolean
  or a number is not represented: whether two such cells of the track frame differ is
  decided by the dtype that pandas infers for the whole column.
\<close>

datatype vis_value =
    VStr string
  | VArr "vis_value list"
  | VObj "(string, vis_value) fmap"

section \<open>Splitting the track into segments\<close>

text \<open>
  A row of the track frame built in \<^verbatim>\<open>update_map\<close>: the columns \<^verbatim>\<open>lat\<close>,
  \<^verbatim>\<open>lon\<close> and \<^verbatim>\<open>vis\<close>. A frame is the list of its rows, and \<^verbatim>\<open>df.iloc[a:b]\<close> is
  the slice of rows \<open>a\<close> up to \<open>b\<close> (exclusive).
\<close>

record track_row =
  row_lat :: pyfloat
  row_lon :: pyfloat
  row_vis :: vis_value

definition iloc_slice :: "'a list \<Rightarrow> nat \<Rightarrow> nat \<Rightarrow> 'a list" where
  "iloc_slice df a b = take (b - a) (drop a df)"

text \<open>
  \<^verbatim>\<open>split_segments\<close>: the loop \<^verbatim>\<open>for i in range(1, len(df))\<close> carries the pair
  \<^verbatim>\<open>(segments, start)\<close>; \<open>split_step\<close> is its body, and the function closes the last
  segment with \<^verbatim>\<open>df.iloc[start:]\<close> after the loop. The source reads its argument and
  these two local variables only, no module-level name, so it is embedded as a function of
  the frame.
\<close>

definition split_step ::
  "track_row list \<Rightarrow> nat \<Rightarrow> track_row list list \<times> nat \<Rightarrow> track_row list list \<times> nat" where
  "split_step df i = (\<lambda>(segments, start).
     if row_vis (df ! i) \<noteq> row_vis (df ! (i - 1))
     then (segments @ [iloc_slice df start i], i)
     else (segments, start))"

definition split_segments :: "track_row list \<Rightarrow> track_row list list" where
  "split_segments df =
     (if df = [] then []
      else (case fold (split_step df) [1..<length df] ([], 0) of
              (segments, start) \<Rightarrow> segments @ [drop start df]))"

text \<open>The visibility a segment is drawn with: \<^verbatim>\<open>seg["vis"].iloc[0]\<close>, for a non-empty segment.\<close>

definition seg_vis :: "track_row list \<Rightarrow> vis_value" where
  "seg_vis seg = row_vis (hd seg)"

section \<open>Exceptions and the replies of the two endpoints\<close>

text \<open>
  Every exception that can leave a function of \<^verbatim>\<open>app.py\<close> is a value of \<open>exn\<close>; a
  function that may raise returns \<open>exn + 'a\<close>, with \<open>Inl\<close> for the exception.
  \<open>Timeout\<close>, \<open>ConnectionError\<close>, \<open>HTTPError\<close> and \<open>JSONDecodeError\<close> are the
  classes of the \<^verbatim>\<open>requests\<close> library; \<open>OtherRequestException\<close> stands for its
  remaining subclasses of \<^verbatim>\<open>RequestException\<close> (too many redirects, an invalid URL).
  \<open>PreventUpdate\<close> is the exception by which a Dash callback says that no output changes.
\<close>

datatype exn =
    Timeout | ConnectionError | HTTPError | JSONDecodeError | OtherRequestException
  | KeyError string | ValueError | TypeError | OverflowError | AttributeError | IndexError
  | PreventUpdate

text \<open>
  \<^verbatim>\<open>except requests.RequestException\<close> catches exactly these (in \<^verbatim>\<open>requests\<close> 2.27 and
  later the error of \<^verbatim>\<open>resp.json()\<close> is one of them).
\<close>

definition is_RequestException :: "exn \<Rightarrow> bool" where
  "is_RequestException e =
     (e = Timeout \<or> e = ConnectionError \<or> e = HTTPError \<or> e = JSONDecodeError
      \<or> e = OtherRequestException)"

text \<open>
  A value of a parsed JSON document, as Python holds it: \<^verbatim>\<open>None\<close>, a \<^verbatim>\<open>bool\<close>, an
  \<^verbatim>\<open>int\<close> of any size, a \<^verbatim>\<open>float\<close> (the parser of Python also accepts the literals
  \<^verbatim>\<open>NaN\<close> and \<^verbatim>\<open>Infinity\<close>, and reads \<^verbatim>\<open>1e999\<close> as infinity), a \<^verbatim>\<open>str\<close>, a list or
  a dict.
\<close>

datatype json =
    JNull | JBool bool | JInt int | JFloat pyfloat | JStr string
  | JArr "json list"
  | JObj "(string, json) fmap"

text \<open>
  The parsed telemetry object is represented by the five keys \<^verbatim>\<open>update_map\<close> reads
  (\<open>None\<close>: the key is absent). The parsed reverse-geocode object is represented by its
  key \<^verbatim>\<open>country_code\<close>.
\<close>

record iss_data =
  latitude :: "json option"
  longitude :: "json option"
  altitude :: "json option"
  velocity :: "json option"
  visibility :: "vis_value option"

record geo_data =
  country_code :: "json option"

text \<open>
  What \<^verbatim>\<open>resp.json()\<close> returns: a JSON object, or some other JSON value (an array, a
  number, a string, \<^verbatim>\<open>null\<close>). What one \<^verbatim>\<open>requests.get\<close> call meets: an
  exception, or a response with its status code and its body (\<open>None\<close>: the body is not
  JSON).
\<close>

datatype 'a json_doc = NonObject | Object 'a

datatype 'a reply =
    RaisesTimeout | RaisesConnectionError | RaisesOther
  | Response nat "'a json_doc option"

definition requests_get :: "'a reply \<Rightarrow> exn + nat \<times> 'a json_doc option" where
  "requests_get r =
     (case r of
        RaisesTimeout \<Rightarrow> Inl Timeout
      | RaisesConnectionError \<Rightarrow> Inl ConnectionError
      | RaisesOther \<Rightarrow> Inl OtherRequestException
      | Response status body \<Rightarrow> Inr (status, body))"

definition raise_for_status :: "nat \<Rightarrow> exn + unit" where
  "raise_for_status status = (if 400 \<le> status \<and> status < 600 then Inl HTTPError else Inr ())"

definition resp_json :: "'a json_doc option \<Rightarrow> exn + 'a json_doc" where
  "resp_json body = (case body of None \<Rightarrow> Inl JSONDecodeError | Some doc \<Rightarrow> Inr doc)"

section \<open>Fetching the telemetry\<close>

text \<open>
  \<^verbatim>\<open>pd.DataFrame([data])\<close> followed by the \<^verbatim>\<open>drop\<close> of five columns none of which
  is read later: a one-row frame, represented by the same five keys. Built from a JSON
  value that is not an object, the frame has none of the five columns.
\<close>

definition one_row_frame :: "iss_data json_doc \<Rightarrow> iss_data" where
  "one_row_frame doc =
     (case doc of
        Object data \<Rightarrow> data
      | NonObject \<Rightarrow> \<lparr>latitude = None, longitude = None, altitude = None,
                       velocity = None, visibility = None\<rparr>)"

text \<open>The body of the \<^verbatim>\<open>try\<close> block of \<^verbatim>\<open>get_iss_telemetry\<close>.\<close>

definition get_iss_telemetry_try :: "iss_data reply \<Rightarrow> exn + iss_data" where
  "get_iss_telemetry_try r =
     (case requests_get r of
        Inl e \<Rightarrow> Inl e
      | Inr (status, body) \<Rightarrow>
          (case raise_for_status status of
             Inl e \<Rightarrow> Inl e
           | Inr _ \<Rightarrow>
               (case resp_json body of
                  Inl e \<Rightarrow> Inl e
                | Inr doc \<Rightarrow> Inr (one_row_frame doc))))"

text \<open>
  \<^verbatim>\<open>get_iss_telemetry\<close>: the two \<^verbatim>\<open>except\<close> clauses print a warning and fall through
  to \<^verbatim>\<open>return None\<close>; any other exception leaves the function.
\<close>

definition get_iss_telemetry :: "iss_data reply \<Rightarrow> exn + iss_data option" where
  "get_iss_telemetry r =
     (case get_iss_telemetry_try r of
        Inr df \<Rightarrow> Inr (Some df)
      | Inl e \<Rightarrow>
          if e = Timeout \<or> e = ConnectionError then Inr None
          else if e = HTTPError then Inr None
          else Inl e)"

section \<open>Library functions and module constants taken as parameters\<close>

text \<open>
  \<open>countries\<close> is the table of \<^verbatim>\<open>pycountry\<close>, from an alpha-2 code to the country's
  name (\<open>None\<close>: \<^verbatim>\<open>pycountry.countries.get\<close> returns \<^verbatim>\<open>None\<close>); \<open>str_upper\<close> is
  Python's \<^verbatim>\<open>str.upper\<close>; \<open>float_of_str\<close> is Python's \<^verbatim>\<open>float\<close> on a string
  (\<open>None\<close>: it raises \<^verbatim>\<open>ValueError\<close>) and \<open>float_of_int\<close> is \<^verbatim>\<open>float\<close> on an
  \<^verbatim>\<open>int\<close>, which rounds to the nearest float (\<open>None\<close>: it raises
  \<^verbatim>\<open>OverflowError\<close>, the \<^verbatim>\<open>int\<close> being too large for a float); \<open>encoded_image\<close> is the
  module constant of that name.
\<close>

record env =
  countries :: "string \<Rightarrow> string option"
  str_upper :: "string \<Rightarrow> string"
  float_of_str :: "string \<Rightarrow> pyfloat option"
  float_of_int :: "int \<Rightarrow> pyfloat option"
  encoded_image :: string

section \<open>Reading the sample\<close>

text \<open>\<^verbatim>\<open>df[name].iloc[0]\<close> raises \<^verbatim>\<open>KeyError\<close> when the frame has no such column.\<close>

definition column :: "'a option \<Rightarrow> string \<Rightarrow> exn + 'a" where
  "column c name = (case c of None \<Rightarrow> Inl (KeyError name) | Some v \<Rightarrow> Inr v)"

text \<open>
  \<^verbatim>\<open>float(v)\<close> on the value of a cell: a float is returned as it is, \<^verbatim>\<open>True\<close> and
  \<^verbatim>\<open>False\<close> are \<^verbatim>\<open>1.0\<close> and \<^verbatim>\<open>0.0\<close>, and \<^verbatim>\<open>None\<close>, a list and a dict raise
  \<^verbatim>\<open>TypeError\<close>.
\<close>

definition py_float :: "env \<Rightarrow> json \<Rightarrow> exn + pyfloat" where
  "py_float env v =
     (case v of
        JFloat x \<Rightarrow> Inr x
      | JInt i \<Rightarrow> (case float_of_int env i of None \<Rightarrow> Inl OverflowError | Some x \<Rightarrow> Inr x)
      | JBool b \<Rightarrow> Inr (Finite (if b then 1 else 0))
      | JStr s \<Rightarrow> (case float_of_str env s of None \<Rightarrow> Inl ValueError | Some x \<Rightarrow> Inr x)
      | JNull \<Rightarrow> Inl TypeError
      | JArr _ \<Rightarrow> Inl TypeError
      | JObj _ \<Rightarrow> Inl TypeError)"

definition float_column :: "env \<Rightarrow> json option \<Rightarrow> string \<Rightarrow> exn + pyfloat" where
  "float_column env c name =
     (case column c name of Inl e \<Rightarrow> Inl e | Inr v \<Rightarrow> py_float env v)"

record sample =
  s_lat :: pyfloat
  s_lon :: pyfloat
  s_alt :: pyfloat
  s_vel :: pyfloat
  s_vis :: vis_value

text \<open>The five assignments at the head of \<^verbatim>\<open>update_map\<close>, in the order of the source.\<close>

definition read_sample :: "env \<Rightarrow> iss_data \<Rightarrow> exn + sample" where
  "read_sample env df =
     (case float_column env (latitude df) ''latitude'' of Inl e \<Rightarrow> Inl e | Inr lat \<Rightarrow>
      (case float_column env (longitude df) ''longitude'' of Inl e \<Rightarrow> Inl e | Inr lon \<Rightarrow>
       (case float_column env (altitude df) ''altitude'' of Inl e \<Rightarrow> Inl e | Inr alt \<Rightarrow>
        (case float_column env (velocity df) ''velocity'' of Inl e \<Rightarrow> Inl e | Inr vel \<Rightarrow>
         (case column (visibility df) ''visibility'' of Inl e \<Rightarrow> Inl e | Inr vis \<Rightarrow>
            Inr \<lparr>s_lat = lat, s_lon = lon, s_alt = alt, s_vel = vel, s_vis = vis\<rparr>)))))"

section \<open>The country lookup\<close>

text \<open>
  Python's truth value of a JSON value (a zero, an empty text, an empty list and an empty
  dict are false; \<^verbatim>\<open>nan\<close> is true) and \<^verbatim>\<open>dict.get\<close> with its default \<^verbatim>\<open>None\<close>.
\<close>

definition truthy :: "json \<Rightarrow> bool" where
  "truthy v =
     (case v of
        JNull \<Rightarrow> False
      | JBool b \<Rightarrow> b
      | JInt i \<Rightarrow> i \<noteq> 0
      | JFloat x \<Rightarrow> x \<noteq> Finite 0 \<and> x \<noteq> NegZero
      | JStr s \<Rightarrow> s \<noteq> []
      | JArr xs \<Rightarrow> xs \<noteq> []
      | JObj kvs \<Rightarrow> kvs \<noteq> fmempty)"

definition dict_get :: "json option \<Rightarrow> json" where
  "dict_get c = (case c of None \<Rightarrow> JNull | Some v \<Rightarrow> v)"

text \<open>
  The \<^verbatim>\<open>try\<close> block of the country lookup in \<^verbatim>\<open>update_map\<close>. It returns the pair
  \<^verbatim>\<open>(country_name, country_color)\<close> as it stands at the end of the block; the pair set
  before the block is \<^verbatim>\<open>("Ocean", "red")\<close>. \<^verbatim>\<open>cdata.get\<close> exists only on an object,
  and \<^verbatim>\<open>code.upper\<close> only on a string.
\<close>

definition country_lookup_try :: "env \<Rightarrow> geo_data reply \<Rightarrow> exn + string \<times> string" where
  "country_lookup_try env r =
     (case requests_get r of
        Inl e \<Rightarrow> Inl e
      | Inr (status, body) \<Rightarrow>
          (case raise_for_status status of
             Inl e \<Rightarrow> Inl e
           | Inr _ \<Rightarrow>
               (case resp_json body of
                  Inl e \<Rightarrow> Inl e
                | Inr NonObject \<Rightarrow> Inl AttributeError
                | Inr (Object cdata) \<Rightarrow>
                    (let code = dict_get (country_code cdata)
                     in if truthy code \<and> code \<noteq> JStr ''??''
                        then (case code of
                                JStr s \<Rightarrow>
                                  Inr (case countries env (str_upper env s) of
                                         Some name \<Rightarrow> name
                                       | None \<Rightarrow> s,
                                       ''red'')
                              | _ \<Rightarrow> Inl AttributeError)
                        else Inr (''Ocean'', ''red'')))))"

text \<open>
  The whole statement: \<^verbatim>\<open>except requests.RequestException: pass\<close> leaves the pair as
  it was set before the block; any other exception leaves \<^verbatim>\<open>update_map\<close>.
\<close>

definition country_lookup :: "env \<Rightarrow> geo_data reply \<Rightarrow> exn + string \<times> string" where
  "country_lookup env r =
     (case country_lookup_try env r of
        Inr loc \<Rightarrow> Inr loc
      | Inl e \<Rightarrow> if is_RequestException e then Inr (''Ocean'', ''red'') else Inl e)"

section \<open>The figure\<close>

text \<open>
  \<^verbatim>\<open>color_map\<close>, the module's dictionary from a visibility to a line colour.
\<close>

definition color_map :: "string \<Rightarrow> string option" where
  "color_map = map_of [(''daylight'', ''white''), (''visible'', ''#FFFF00''), (''eclipsed'', ''red'')]"

text \<open>
  A \<^verbatim>\<open>go.Scattergeo\<close> trace with the keyword arguments the source passes (a keyword
  that is not passed is \<open>None\<close>, or the empty list for \<^verbatim>\<open>text\<close>); \<open>sg_line\<close> is
  \<^verbatim>\<open>dict(width, color)\<close> and \<open>sg_marker\<close> is \<^verbatim>\<open>dict(size, color)\<close>.
\<close>

record scattergeo =
  sg_lat :: "pyfloat list"
  sg_lon :: "pyfloat list"
  sg_mode :: string
  sg_text :: "string list"
  sg_textfont_size :: "nat option"
  sg_line :: "(nat \<times> string) option"
  sg_marker :: "(nat \<times> string) option"
  sg_showlegend :: bool
  sg_geo :: string

definition line_trace :: "track_row list \<Rightarrow> string \<Rightarrow> scattergeo" where
  "line_trace seg color =
     \<lparr>sg_lat = map row_lat seg, sg_lon = map row_lon seg, sg_mode = ''lines'', sg_text = [],
      sg_textfont_size = None, sg_line = Some (2, color), sg_marker = None,
      sg_showlegend = False, sg_geo = ''geo''\<rparr>"

text \<open>The text of the main marker is the Father Christmas emoji, U+1F385, in UTF-8.\<close>

definition santa :: string where
  "santa = [CHR 0xF0, CHR 0x9F, CHR 0x8E, CHR 0x85]"

definition main_marker :: "pyfloat \<Rightarrow> pyfloat \<Rightarrow> scattergeo" where
  "main_marker lat lon =
     \<lparr>sg_lat = [lat], sg_lon = [lon], sg_mode = ''text'', sg_text = [santa],
      sg_textfont_size = Some 28, sg_line = None, sg_marker = None,
      sg_showlegend = False, sg_geo = ''geo''\<rparr>"

definition inset_marker :: "pyfloat \<Rightarrow> pyfloat \<Rightarrow> string \<Rightarrow> scattergeo" where
  "inset_marker lat lon color =
     \<lparr>sg_lat = [lat], sg_lon = [lon], sg_mode = ''markers'', sg_text = [],
      sg_textfont_size = None, sg_line = None, sg_marker = Some (8, color),
      sg_showlegend = False, sg_geo = ''geo2''\<rparr>"

text \<open>
  The figure: its traces in the order of the \<^verbatim>\<open>add_trace\<close> calls, the source of the
  layout image and the texts of the four annotations. The constant styling of the layout
  (positions, fonts, the two \<^verbatim>\<open>geo\<close> axes) is left out.
\<close>

record figure =
  fig_data :: "scattergeo list"
  fig_image_source :: string
  fig_annotations :: "string list"

text \<open>
  \<^verbatim>\<open>pd.DataFrame({"lat": ..., "lon": ..., "vis": ...})\<close> raises \<^verbatim>\<open>ValueError\<close> when the
  three lists differ in length.
\<close>

definition DataFrame ::
  "pyfloat list \<Rightarrow> pyfloat list \<Rightarrow> vis_value list \<Rightarrow> exn + track_row list" where
  "DataFrame lats lons viss =
     (if length lats = length lons \<and> length lons = length viss
      then Inr (map (\<lambda>(lat, lon, vis). \<lparr>row_lat = lat, row_lon = lon, row_vis = vis\<rparr>)
                  (zip lats (zip lons viss)))
      else Inl ValueError)"

text \<open>
  A dictionary hashes the key it is asked for: \<^verbatim>\<open>vtype in color_map\<close> and
  \<^verbatim>\<open>color_map.get(vis, ...)\<close> raise \<^verbatim>\<open>TypeError\<close> on a list and on a dict, which are
  not hashable; a text is looked up.
\<close>

definition color_map_find :: "vis_value \<Rightarrow> exn + string option" where
  "color_map_find v =
     (case v of
        VStr s \<Rightarrow> Inr (color_map s)
      | VArr _ \<Rightarrow> Inl TypeError
      | VObj _ \<Rightarrow> Inl TypeError)"

text \<open>
  The loop over the segments: \<open>add_segment\<close> is its body, on the list of traces added so
  far. \<^verbatim>\<open>seg["vis"].iloc[0]\<close> raises \<^verbatim>\<open>IndexError\<close> on a segment without rows.
\<close>

definition add_segment :: "track_row list \<Rightarrow> scattergeo list \<Rightarrow> exn + scattergeo list" where
  "add_segment seg traces =
     (case seg of
        [] \<Rightarrow> Inl IndexError
      | r # _ \<Rightarrow>
          (let vtype = row_vis r
           in case color_map_find vtype of
                Inl e \<Rightarrow> Inl e
              | Inr (Some color) \<Rightarrow> Inr (traces @ [line_trace seg color])
              | Inr None \<Rightarrow> Inr traces))"

fun add_segments :: "track_row list list \<Rightarrow> scattergeo list \<Rightarrow> exn + scattergeo list" where
  "add_segments [] traces = Inr traces"
| "add_segments (seg # segs) traces =
     (case add_segment seg traces of
        Inl e \<Rightarrow> Inl e
      | Inr traces' \<Rightarrow> add_segments segs traces')"

text \<open>\<^verbatim>\<open>color_map.get(vis, "#FFFFFF")\<close>.\<close>

definition current_color :: "vis_value \<Rightarrow> exn + string" where
  "current_color vis =
     (case color_map_find vis of
        Inl e \<Rightarrow> Inl e
      | Inr (Some color) \<Rightarrow> Inr color
      | Inr None \<Rightarrow> Inr ''#FFFFFF'')"

text \<open>
  The legend text; the line sample between the \<^verbatim>\<open>span\<close> tags is two U+2501, a space
  and U+25CF, in UTF-8. \<^verbatim>\<open>color_map['daylight']\<close> and its two siblings read keys that
  the dictionary has.
\<close>

definition legend_mark :: string where
  "legend_mark = [CHR 0xE2, CHR 0x94, CHR 0x81, CHR 0xE2, CHR 0x94, CHR 0x81, CHR '' '',
                  CHR 0xE2, CHR 0x97, CHR 0x8F]"

definition legend_line :: "string \<Rightarrow> string" where
  "legend_line vis =
     ''<span style='color:'' @ the (color_map vis) @ '''>'' @ legend_mark @ ''</span> '' @ vis"

definition legend_html :: string where
  "legend_html =
     ''<b>Visibility</b><br>'' @ legend_line ''daylight'' @ ''<br>''
     @ legend_line ''visible'' @ ''<br>'' @ legend_line ''eclipsed''"

text \<open>
  The part of \<^verbatim>\<open>update_map\<close> from the construction of \<^verbatim>\<open>track_df\<close> to
  \<^verbatim>\<open>fig.update_layout\<close>, on the contents of the three deques after the append.
\<close>

definition build_figure ::
  "env \<Rightarrow> pyfloat list \<Rightarrow> pyfloat list \<Rightarrow> vis_value list \<Rightarrow> sample \<Rightarrow> string \<Rightarrow> string
     \<Rightarrow> exn + figure" where
  "build_figure env lats lons viss s country_name current_time =
     (case DataFrame lats lons viss of
        Inl e \<Rightarrow> Inl e
      | Inr track_df \<Rightarrow>
          (case add_segments (split_segments track_df) [] of
             Inl e \<Rightarrow> Inl e
           | Inr traces \<Rightarrow>
               (case current_color (s_vis s) of
                  Inl e \<Rightarrow> Inl e
                | Inr color \<Rightarrow>
                    Inr \<lparr>fig_data = traces @ [main_marker (s_lat s) (s_lon s),
                                              inset_marker (s_lat s) (s_lon s) color],
                         fig_image_source = ''data:image/png;base64,'' @ encoded_image env,
                         fig_annotations =
                           [''<b>Currently over:</b>'',
                            ''<b>'' @ country_name @ ''</b>'',
                            ''<b>'' @ current_time @ ''</b>'',
                            legend_html]\<rparr>)))"

section \<open>Formatting a readout\<close>

text \<open>
  \<^verbatim>\<open>f"{x:.2f}"\<close>. A finite value is rounded to the nearest hundredth, a tie going to the
  even one, and printed with its sign (kept when the rounded value is zero), its integer
  digits, a point and two decimals; the negative zero is \<^verbatim>\<open>-0.00\<close>; an infinity and
  \<^verbatim>\<open>nan\<close> are printed by name.
\<close>

definition digit_char :: "nat \<Rightarrow> char" where
  "digit_char n = ''0123456789'' ! n"

fun dec :: "nat \<Rightarrow> string" where
  "dec n = (if n < 10 then [digit_char n] else dec (n div 10) @ [digit_char (n mod 10)])"

definition round_half_even :: "rat \<Rightarrow> int" where
  "round_half_even x =
     (let f = \<lfloor>x\<rfloor>; d = x - of_int f
      in if d < 1 / 2 then f else if 1 / 2 < d then f + 1 else if even f then f else f + 1)"

definition hundredths :: "rat \<Rightarrow> nat" where
  "hundredths x = nat (round_half_even (\<bar>x\<bar> * 100))"

definition format_finite :: "rat \<Rightarrow> string" where
  "format_finite x =
     (if x < 0 then ''-'' else '''') @ dec (hundredths x div 100) @ ''.''
     @ [digit_char (hundredths x div 10 mod 10), digit_char (hundredths x mod 10)]"

definition format_2f :: "pyfloat \<Rightarrow> string" where
  "format_2f x =
     (case x of
        Finite r \<Rightarrow> format_finite r
      | NegZero \<Rightarrow> ''-0.00''
      | PosInf \<Rightarrow> ''inf''
      | NegInf \<Rightarrow> ''-inf''
      | NaN \<Rightarrow> ''nan'')"

section \<open>The tick\<close>

text \<open>
  The three module-level deques are the state; \<open>tick_io\<close> is what one call of
  \<^verbatim>\<open>update_map\<close> meets outside the program: the replies to its two requests and the
  text of \<^verbatim>\<open>datetime.utcnow().strftime(...)\<close>. \<open>store\<close> is the dictionary kept in
  \<^verbatim>\<open>dcc.Store\<close>, and \<open>outputs\<close> the six values the callback returns.
\<close>

record track =
  TRACK_LAT :: "pyfloat list"
  TRACK_LON :: "pyfloat list"
  TRACK_VIS :: "vis_value list"

record tick_io =
  telemetry :: "iss_data reply"
  geocode :: "geo_data reply"
  utcnow :: string

record store =
  store_lat :: "pyfloat list"
  store_lon :: "pyfloat list"
  store_vis :: "vis_value list"

record outputs =
  out_figure :: figure
  out_lat :: string
  out_lon :: string
  out_alt :: string
  out_vel :: string
  out_store :: store

definition initial_track :: track where
  "initial_track = \<lparr>TRACK_LAT = [], TRACK_LON = [], TRACK_VIS = []\<rparr>"

text \<open>The three \<^verbatim>\<open>append\<close> calls.\<close>

definition append_sample :: "track \<Rightarrow> sample \<Rightarrow> track" where
  "append_sample g s =
     \<lparr>TRACK_LAT = deque_append MAX_POINTS (TRACK_LAT g) (s_lat s),
      TRACK_LON = deque_append MAX_POINTS (TRACK_LON g) (s_lon s),
      TRACK_VIS = deque_append MAX_POINTS (TRACK_VIS g) (s_vis s)\<rparr>"

text \<open>
  \<^verbatim>\<open>update_map(_, track_data)\<close>, with the state of the deques passed in and returned.
  An exception leaves the callback with the deques as they are at that point.
\<close>

definition update_map ::
  "env \<Rightarrow> tick_io \<Rightarrow> nat \<Rightarrow> store \<Rightarrow> track \<Rightarrow> (exn + outputs) \<times> track" where
  "update_map env io n_intervals track_data g =
     (case get_iss_telemetry (telemetry io) of
        Inl e \<Rightarrow> (Inl e, g)
      | Inr None \<Rightarrow> (Inl PreventUpdate, g)
      | Inr (Some df) \<Rightarrow>
          (case read_sample env df of
             Inl e \<Rightarrow> (Inl e, g)
           | Inr s \<Rightarrow>
               (case country_lookup env (geocode io) of
                  Inl e \<Rightarrow> (Inl e, g)
                | Inr (country_name, country_color) \<Rightarrow>
                    (let g' = append_sample g s
                     in case build_figure env (TRACK_LAT g') (TRACK_LON g') (TRACK_VIS g') s
                               country_name (utcnow io) of
                          Inl e \<Rightarrow> (Inl e, g')
                        | Inr fig \<Rightarrow>
                            (Inr \<lparr>out_figure = fig,
                                  out_lat = format_2f (s_lat s),
                                  out_lon = format_2f (s_lon s),
                                  out_alt = format_2f (s_alt s),
                                  out_vel = format_2f (s_vel s),
                                  out_store = \<lparr>store_lat = TRACK_LAT g', store_lon = TRACK_LON g',
                                               store_vis = TRACK_VIS g'\<rparr>\<rparr>,
                             g')))))"

section \<open>Predicates of the statements\<close>

text \<open>A segment is homogeneous when every row has the visibility of its first row.\<close>

definition homogeneous :: "track_row list \<Rightarrow> bool" where
  "homogeneous seg = list_all (\<lambda>r. row_vis r = seg_vis seg) seg"

text \<open>Rows \<open>a\<close> up to \<open>b\<close> (exclusive) of a frame share the visibility of row \<open>a\<close>.\<close>

definition same_vis_run :: "track_row list \<Rightarrow> nat \<Rightarrow> nat \<Rightarrow> bool" where
  "same_vis_run df a b = (\<forall>j. a \<le> j \<and> j < b \<longrightarrow> row_vis (df ! j) = row_vis (df ! a))"

text \<open>
  The invariant of the loop of \<^verbatim>\<open>split_segments\<close> when the next index is \<open>k\<close>: the
  closed segments are the rows before \<open>start\<close>, each of them non-empty and homogeneous,
  neighbours differ, the open run from \<open>start\<close> is homogeneous and differs from the last
  closed segment.
\<close>

definition split_inv :: "track_row list \<Rightarrow> nat \<Rightarrow> track_row list list \<times> nat \<Rightarrow> bool" where
  "split_inv df k = (\<lambda>(segments, start).
     start < k \<and> concat segments = take start df
     \<and> list_all (\<lambda>s. s \<noteq> [] \<and> homogeneous s) segments
     \<and> same_vis_run df start k
     \<and> distinct_adj (map seg_vis segments)
     \<and> (segments \<noteq> [] \<longrightarrow> seg_vis (last segments) \<noteq> row_vis (df ! start)))"

text \<open>A visibility that is a text, and deques whose visibilities are all texts.\<close>

definition is_text :: "vis_value \<Rightarrow> bool" where
  "is_text v = (case v of VStr _ \<Rightarrow> True | VArr _ \<Rightarrow> False | VObj _ \<Rightarrow> False)"

definition texts_only :: "track \<Rightarrow> bool" where
  "texts_only g = list_all is_text (TRACK_VIS g)"

text \<open>
  The line layers one segment contributes to the figure when the loop passes it: one line
  for a visibility that is a key of \<^verbatim>\<open>color_map\<close>, none otherwise.
\<close>

definition segment_layer :: "track_row list \<Rightarrow> scattergeo list" where
  "segment_layer seg =
     (case color_map_find (seg_vis seg) of
        Inr (Some color) \<Rightarrow> [line_trace seg color]
      | Inr None \<Rightarrow> []
      | Inl e \<Rightarrow> [])"

text \<open>The three deques hold the same number of elements, and at most \<open>MAX_POINTS\<close>.\<close>

definition track_ok :: "track \<Rightarrow> bool" where
  "track_ok g =
     (length (TRACK_LAT g) = length (TRACK_LON g) \<and> length (TRACK_LON g) = length (TRACK_VIS g)
      \<and> length (TRACK_VIS g) \<le> MAX_POINTS)"

text \<open>The rows of the track frame built from the deques.\<close>

definition track_rows :: "track \<Rightarrow> track_row list" where
  "track_rows g =
     map (\<lambda>(lat, lon, vis). \<lparr>row_lat = lat, row_lon = lon, row_vis = vis\<rparr>)
       (zip (TRACK_LAT g) (zip (TRACK_LON g) (TRACK_VIS g)))"

text \<open>
  The sample a tick appends to the deques: the one it has read, when the fetch returned a
  frame, the five fields could be read and the country lookup did not raise; \<open>None\<close> when
  the tick ends before the three \<^verbatim>\<open>append\<close> calls.
\<close>

definition tick_sample :: "env \<Rightarrow> tick_io \<Rightarrow> sample option" where
  "tick_sample env io =
     (case get_iss_telemetry (telemetry io) of
        Inr (Some df) \<Rightarrow>
          (case read_sample env df of
             Inr s \<Rightarrow> (case country_lookup env (geocode io) of Inr _ \<Rightarrow> Some s | Inl _ \<Rightarrow> None)
           | Inl _ \<Rightarrow> None)
      | Inr None \<Rightarrow> None
      | Inl _ \<Rightarrow> None)"

text \<open>
  A run of the program: the calls of \<^verbatim>\<open>update_map\<close> one after the other, each with what
  it meets outside and its two arguments, on the deques the call before has left; and the
  samples these calls append, in the order of the calls.
\<close>

definition run_ticks :: "env \<Rightarrow> (tick_io \<times> nat \<times> store) list \<Rightarrow> track \<Rightarrow> track" where
  "run_ticks env calls g =
     foldl (\<lambda>g (io, n_intervals, track_data). snd (update_map env io n_intervals track_data g))
       g calls"

definition appended_samples :: "env \<Rightarrow> (tick_io \<times> nat \<times> store) list \<Rightarrow> sample list" where
  "appended_samples env calls =
     List.map_filter (\<lambda>(io, n_intervals, track_data). tick_sample env io) calls"

text \<open>
  A text with two decimals: an optional minus sign, at least one digit, a point and two
  digits.
\<close>

definition is_digit :: "char \<Rightarrow> bool" where
  "is_digit c = (c \<in> set ''0123456789'')"

definition two_decimals :: "string \<Rightarrow> bool" where
  "two_decimals s =
     (let t = (if take 1 s = ''-'' then drop 1 s else s); k = length t - 3
      in 3 < length t \<and> list_all is_digit (take k t) \<and> t ! k = CHR ''.''
         \<and> is_digit (t ! (k + 1)) \<and> is_digit (t ! (k + 2)))"

text \<open>
  The number a text with two decimals denotes: the digits before the point, read in base
  ten, plus the two digits after it as hundredths, negated after a minus sign.
\<close>

definition digit_value :: "char \<Rightarrow> nat" where
  "digit_value c = length (takeWhile (\<lambda>d. d \<noteq> c) ''0123456789'')"

definition digits_value :: "string \<Rightarrow> nat" where
  "digits_value ds = foldl (\<lambda>a c. 10 * a + digit_value c) 0 ds"

definition value_2f :: "string \<Rightarrow> rat" where
  "value_2f s =
     (let t = (if take 1 s = ''-'' then drop 1 s else s); k = length t - 3;
          v = of_nat (digits_value (take k t)) + of_nat (digits_value (drop (k + 1) t)) / 100
      in if take 1 s = ''-'' then - v else v)"

text \<open>The four readouts of what a tick returns, or its exception.\<close>

definition readouts :: "exn + outputs \<Rightarrow> exn + string \<times> string \<times> string \<times> string" where
  "readouts r =
     (case r of
        Inl e \<Rightarrow> Inl e
      | Inr out \<Rightarrow> Inr (out_lat out, out_lon out, out_alt out, out_vel out))"

section \<open>Inputs of the closed instances\<close>

text \<open>A frame of three rows, two in daylight and one visible, and one with a fourth row.\<close>

definition row_a :: track_row where
  "row_a = \<lparr>row_lat = Finite 1, row_lon = Finite 10, row_vis = VStr ''daylight''\<rparr>"

definition row_b :: track_row where
  "row_b = \<lparr>row_lat = Finite 2, row_lon = Finite 20, row_vis = VStr ''daylight''\<rparr>"

definition row_c :: track_row where
  "row_c = \<lparr>row_lat = Finite 3, row_lon = Finite 30, row_vis = VStr ''visible''\<rparr>"

definition row_d :: track_row where
  "row_d = \<lparr>row_lat = Finite 4, row_lon = Finite 40, row_vis = VStr ''penumbra''\<rparr>"

text \<open>
  An environment: a table with two countries, \<^verbatim>\<open>upper\<close> on the letters a to z, the
  value of \<^verbatim>\<open>float\<close> on the text \<^verbatim>\<open>12.5\<close> (the only text the instances convert),
  \<^verbatim>\<open>float\<close> on an \<^verbatim>\<open>int\<close>, and an image text. \<^verbatim>\<open>float\<close> keeps the 53 leading bits of
  an \<^verbatim>\<open>int\<close>, rounded to nearest with ties to even, and raises \<^verbatim>\<open>OverflowError\<close> when
  the result is \<open>2\<^sup>1\<^sup>0\<^sup>2\<^sup>4\<close> or more. A telemetry object with all five fields, one
  with none, and the sample read from the first.
\<close>

fun bit_length :: "nat \<Rightarrow> nat" where
  "bit_length n = (if n = 0 then 0 else Suc (bit_length (n div 2)))"

definition int_to_float :: "int \<Rightarrow> pyfloat option" where
  "int_to_float i =
     (let a = nat \<bar>i\<bar>; e = bit_length a - 53; q = a div 2 ^ e; r = a mod 2 ^ e;
          q' = (if 2 ^ e < 2 * r \<or> (2 * r = 2 ^ e \<and> odd q) then q + 1 else q);
          m = q' * 2 ^ e
      in if 2 ^ 1024 \<le> m then None
         else Some (Finite (if i < 0 then - of_nat m else of_nat m)))"

definition ascii_upper :: "string \<Rightarrow> string" where
  "ascii_upper s =
     map (\<lambda>c. case map_of (zip ''abcdefghijklmnopqrstuvwxyz'' ''ABCDEFGHIJKLMNOPQRSTUVWXYZ'') c of
                 Some u \<Rightarrow> u
               | None \<Rightarrow> c) s"

definition demo_env :: env where
  "demo_env =
     \<lparr>countries = map_of [(''US'', ''United States''), (''FR'', ''France'')],
      str_upper = ascii_upper,
      float_of_str = (\<lambda>s. if s = ''12.5'' then Some (Finite (25 / 2)) else None),
      float_of_int = int_to_float,
      encoded_image = ''iVBORw0KGgo=''\<rparr>"

definition demo_data :: iss_data where
  "demo_data =
     \<lparr>latitude = Some (JFloat (Finite (1 / 8))), longitude = Some (JFloat (Finite (- 3 / 8))),
      altitude = Some (JStr ''12.5''), velocity = Some (JFloat (Finite (27 / 2))),
      visibility = Some (VStr ''eclipsed'')\<rparr>"

definition demo_sample :: sample where
  "demo_sample =
     \<lparr>s_lat = Finite (1 / 8), s_lon = Finite (- 3 / 8), s_alt = Finite (25 / 2),
      s_vel = Finite (27 / 2), s_vis = VStr ''eclipsed''\<rparr>"

definition no_fields :: iss_data where
  "no_fields =
     \<lparr>latitude = None, longitude = None, altitude = None, velocity = None,
      visibility = None\<rparr>"

text \<open>
  A tick that meets a good telemetry reply and the country code \<^verbatim>\<open>fr\<close>, and the
  deques after two earlier ticks, the second with a visibility outside \<^verbatim>\<open>color_map\<close>.
\<close>

definition demo_io :: tick_io where
  "demo_io =
     \<lparr>telemetry = Response 200 (Some (Object demo_data)),
      geocode = Response 200 (Some (Object \<lparr>country_code = Some (JStr ''fr'')\<rparr>)),
      utcnow = ''2025-12-24 23:59:50 UTC''\<rparr>"

definition demo_track :: track where
  "demo_track =
     \<lparr>TRACK_LAT = [Finite 1, Finite 2], TRACK_LON = [Finite 10, Finite 20],
      TRACK_VIS = [VStr ''daylight'', VStr ''penumbra'']\<rparr>"

definition demo_store :: store where
  "demo_store = \<lparr>store_lat = [], store_lon = [], store_vis = []\<rparr>"

text \<open>
  The deques after a tick whose visibility was the JSON array \<^verbatim>\<open>["daylight"]\<close>, and
  telemetry objects whose visibility is that array and whose latitude is \<^verbatim>\<open>nan\<close>.
\<close>

definition array_track :: track where
  "array_track =
     \<lparr>TRACK_LAT = [Finite 1, Finite 2, Finite (1 / 8)],
      TRACK_LON = [Finite 10, Finite 20, Finite (- 3 / 8)],
      TRACK_VIS = [VStr ''daylight'', VStr ''penumbra'', VArr [VStr ''daylight'']]\<rparr>"

definition array_data :: iss_data where
  "array_data = demo_data\<lparr>visibility := Some (VArr [VStr ''daylight''])\<rparr>"

definition nan_data :: iss_data where
  "nan_data = demo_data\<lparr>latitude := Some (JFloat NaN)\<rparr>"

text \<open>A telemetry object whose latitude is the integer \<open>2\<^sup>1\<^sup>0\<^sup>2\<^sup>4\<close>.\<close>

definition huge_data :: iss_data where
  "huge_data = demo_data\<lparr>latitude := Some (JInt (2 ^ 1024))\<rparr>"

declare dec.simps [simp del]

declare bit_length.simps [simp del]

section \<open>The bounded deque\<close>

lemma deque_append_length:
  "length d \<le> n \<Longrightarrow> length (deque_append n d x) \<le> n"
  by (auto simp: deque_append_def Let_def)

lemma deque_append_full:
  "length d = n \<Longrightarrow> 0 < n \<Longrightarrow> deque_append n d x = tl d @ [x]"
  by (cases d) (auto simp: deque_append_def Let_def)

lemma deque_append_room:
  "length d < n \<Longrightarrow> deque_append n d x = d @ [x]"
  by (simp add: deque_append_def Let_def)

lemma foldl_deque_append:
  "length d \<le> n \<Longrightarrow>
   foldl (deque_append n) d xs = drop (length d + length xs - n) (d @ xs)"
proof (induction xs arbitrary: d)
  case Nil
  then show ?case by simp
next
  case (Cons x xs)
  let ?d = "deque_append n d x"
  have len: "length ?d \<le> n" using Cons.prems by (rule deque_append_length)
  have "foldl (deque_append n) d (x # xs) = foldl (deque_append n) ?d xs" by simp
  also have "\<dots> = drop (length ?d + length xs - n) (?d @ xs)"
    using len by (rule Cons.IH)
  also have "\<dots> = drop (length d + length (x # xs) - n) (d @ x # xs)"
  proof (cases "length d < n")
    case True
    then show ?thesis by (simp add: deque_append_room)
  next
    case False
    with Cons.prems have eq: "length d = n" by simp
    show ?thesis
    proof (cases d)
      case Nil
      with eq show ?thesis by (simp add: deque_append_def)
    next
      case (Cons a d')
      with eq show ?thesis by (auto simp: deque_append_full)
    qed
  qed
  finally show ?case .
qed

lemma appends_drop: "appends n xs = drop (length xs - n) xs"
  using foldl_deque_append [of "[]" n xs] by (simp add: appends_def)

lemma appends_snoc: "appends n (xs @ [x]) = deque_append n (appends n xs) x"
  by (simp add: appends_def)

section \<open>The loop invariant of the segmenter\<close>

lemma same_vis_runD:
  "same_vis_run df a b \<Longrightarrow> a \<le> j \<Longrightarrow> j < b \<Longrightarrow> row_vis (df ! j) = row_vis (df ! a)"
  unfolding same_vis_run_def by blast

lemma same_vis_run_single: "same_vis_run df k (Suc k)"
  unfolding same_vis_run_def by (auto simp: less_Suc_eq)

lemma same_vis_run_extend:
  assumes "same_vis_run df a k" and "row_vis (df ! k) = row_vis (df ! a)"
  shows "same_vis_run df a (Suc k)"
  unfolding same_vis_run_def
proof (intro allI impI)
  fix j assume j: "a \<le> j \<and> j < Suc k"
  show "row_vis (df ! j) = row_vis (df ! a)"
  proof (cases "j = k")
    case True
    then show ?thesis using assms(2) by simp
  next
    case False
    then have "j < k" using j by simp
    with assms(1) j show ?thesis by (blast dest: same_vis_runD)
  qed
qed

lemma slice_run:
  assumes "start < k" "k \<le> length df" and run: "same_vis_run df start k"
  shows "iloc_slice df start k \<noteq> []" "seg_vis (iloc_slice df start k) = row_vis (df ! start)"
    "homogeneous (iloc_slice df start k)"
proof -
  let ?s = "iloc_slice df start k"
  have len: "length ?s = k - start" using assms(1,2) by (simp add: iloc_slice_def)
  then show ne: "?s \<noteq> []" using assms(1) by auto
  have nth: "?s ! i = df ! (start + i)" if "i < k - start" for i
    using that assms(2) by (simp add: iloc_slice_def)
  have "hd ?s = ?s ! 0" using ne by (simp add: hd_conv_nth)
  also have "\<dots> = df ! start" using nth [of 0] assms(1) by simp
  finally show sv: "seg_vis ?s = row_vis (df ! start)" by (simp add: seg_vis_def)
  show "homogeneous ?s"
    unfolding homogeneous_def list_all_iff
  proof
    fix r assume "r \<in> set ?s"
    then obtain i where i: "i < k - start" "r = ?s ! i"
      using len by (auto simp: in_set_conv_nth)
    then have "r = df ! (start + i)" using nth by simp
    moreover have "row_vis (df ! (start + i)) = row_vis (df ! start)"
      using run i(1) by (intro same_vis_runD [of df start k]) simp_all
    ultimately show "row_vis r = seg_vis ?s" using sv by simp
  qed
qed

lemma split_inv_step:
  assumes inv: "split_inv df k acc" and k: "0 < k" "k < length df"
  shows "split_inv df (Suc k) (split_step df k acc)"
proof -
  obtain segments start where acc: "acc = (segments, start)" by (cases acc)
  from inv acc have st: "start < k"
    and cc: "concat segments = take start df"
    and segs: "list_all (\<lambda>s. s \<noteq> [] \<and> homogeneous s) segments"
    and run: "same_vis_run df start k"
    and adj: "distinct_adj (map seg_vis segments)"
    and lst: "segments \<noteq> [] \<longrightarrow> seg_vis (last segments) \<noteq> row_vis (df ! start)"
    by (simp_all add: split_inv_def)
  have prev: "row_vis (df ! (k - 1)) = row_vis (df ! start)"
    using run st by (intro same_vis_runD [of df start k]) simp_all
  show ?thesis
  proof (cases "row_vis (df ! k) \<noteq> row_vis (df ! (k - 1))")
    case True
    let ?s = "iloc_slice df start k"
    have kl: "k \<le> length df" using k by simp
    note sl = slice_run [OF st kl run]
    have "take k df = take (start + (k - start)) df" using st by simp
    also have "\<dots> = take start df @ ?s"
      unfolding iloc_slice_def by (rule take_add)
    finally have cc': "concat (segments @ [?s]) = take k df" using cc by simp
    have adj': "distinct_adj (map seg_vis (segments @ [?s]))"
      using adj lst sl(2) by (cases "segments = []") (simp_all add: distinct_adj_append_iff last_map)
    have "seg_vis (last (segments @ [?s])) \<noteq> row_vis (df ! k)"
      using sl(2) True prev by simp
    moreover have "list_all (\<lambda>s. s \<noteq> [] \<and> homogeneous s) (segments @ [?s])"
      using segs sl(1,3) by simp
    ultimately have "split_inv df (Suc k) (segments @ [?s], k)"
      using cc' adj' same_vis_run_single [of df k] unfolding split_inv_def by simp
    moreover have "split_step df k acc = (segments @ [?s], k)"
      using True acc by (simp add: split_step_def)
    ultimately show ?thesis by simp
  next
    case False
    then have same: "row_vis (df ! k) = row_vis (df ! start)" using prev by simp
    have "split_step df k acc = (segments, start)"
      using False acc by (simp add: split_step_def)
    moreover have "same_vis_run df start (Suc k)"
      using run same by (rule same_vis_run_extend)
    moreover have "start < Suc k" using st by simp
    ultimately show ?thesis
      using cc segs adj lst unfolding split_inv_def by simp
  qed
qed

lemma split_inv_fold:
  "0 < k \<Longrightarrow> k \<le> length df \<Longrightarrow> split_inv df k (fold (split_step df) [1..<k] ([], 0))"
proof (induction k)
  case 0
  then show ?case by simp
next
  case (Suc k)
  show ?case
  proof (cases "k = 0")
    case True
    then show ?thesis by (simp add: split_inv_def same_vis_run_single)
  next
    case False
    then have k: "0 < k" "k < length df" using Suc.prems by simp_all
    then have "split_inv df k (fold (split_step df) [1..<k] ([], 0))"
      using Suc.IH by simp
    then have "split_inv df (Suc k) (split_step df k (fold (split_step df) [1..<k] ([], 0)))"
      using k by (rule split_inv_step)
    moreover have "[1..<Suc k] = [1..<k] @ [k]" using k(1) by simp
    ultimately show ?thesis by simp
  qed
qed

lemma split_segments_props:
  "concat (split_segments df) = df"
  "list_all (\<lambda>s. s \<noteq> [] \<and> homogeneous s) (split_segments df)"
  "distinct_adj (map seg_vis (split_segments df))"
proof -
  have "concat (split_segments df) = df
      \<and> list_all (\<lambda>s. s \<noteq> [] \<and> homogeneous s) (split_segments df)
      \<and> distinct_adj (map seg_vis (split_segments df))"
  proof (cases "df = []")
    case True
    then show ?thesis by (simp add: split_segments_def)
  next
    case False
    let ?n = "length df"
    obtain segments start where f: "fold (split_step df) [1..<?n] ([], 0) = (segments, start)"
      by (cases "fold (split_step df) [1..<?n] ([], 0)")
    have "split_inv df ?n (segments, start)"
      using split_inv_fold [of ?n df] False f by simp
    then have st: "start < ?n"
      and cc: "concat segments = take start df"
      and segs: "list_all (\<lambda>s. s \<noteq> [] \<and> homogeneous s) segments"
      and run: "same_vis_run df start ?n"
      and adj: "distinct_adj (map seg_vis segments)"
      and lst: "segments \<noteq> [] \<longrightarrow> seg_vis (last segments) \<noteq> row_vis (df ! start)"
      by (simp_all add: split_inv_def)
    have sl: "iloc_slice df start ?n = drop start df" by (simp add: iloc_slice_def)
    note tail = slice_run [OF st le_refl run, unfolded sl]
    have res: "split_segments df = segments @ [drop start df]"
      using False f by (simp add: split_segments_def)
    have "distinct_adj (map seg_vis (segments @ [drop start df]))"
      using adj lst tail(2) by (cases "segments = []") (simp_all add: distinct_adj_append_iff last_map)
    then show ?thesis using res cc segs tail(1,3) by simp
  qed
  then show "concat (split_segments df) = df"
    "list_all (\<lambda>s. s \<noteq> [] \<and> homogeneous s) (split_segments df)"
    "distinct_adj (map seg_vis (split_segments df))" by simp_all
qed

lemma split_segments_nonempty: "list_all (\<lambda>seg. seg \<noteq> []) (split_segments df)"
  using split_segments_props(2) [of df] by (simp add: list_all_iff)

section \<open>The three deques of the program\<close>

lemma append_sample_fields:
  "TRACK_LAT (append_sample g s) = deque_append MAX_POINTS (TRACK_LAT g) (s_lat s)"
  "TRACK_LON (append_sample g s) = deque_append MAX_POINTS (TRACK_LON g) (s_lon s)"
  "TRACK_VIS (append_sample g s) = deque_append MAX_POINTS (TRACK_VIS g) (s_vis s)"
  by (simp_all add: append_sample_def)

lemma foldl_append_sample:
  "TRACK_LAT (foldl append_sample g ss) = foldl (deque_append MAX_POINTS) (TRACK_LAT g) (map s_lat ss)"
  "TRACK_LON (foldl append_sample g ss) = foldl (deque_append MAX_POINTS) (TRACK_LON g) (map s_lon ss)"
  "TRACK_VIS (foldl append_sample g ss) = foldl (deque_append MAX_POINTS) (TRACK_VIS g) (map s_vis ss)"
  by (induction ss arbitrary: g) (simp_all add: append_sample_fields)

lemma appended_from_empty:
  "TRACK_LAT (foldl append_sample initial_track ss) = drop (length ss - MAX_POINTS) (map s_lat ss)"
  "TRACK_LON (foldl append_sample initial_track ss) = drop (length ss - MAX_POINTS) (map s_lon ss)"
  "TRACK_VIS (foldl append_sample initial_track ss) = drop (length ss - MAX_POINTS) (map s_vis ss)"
  using appends_drop [of MAX_POINTS "map s_lat ss"] appends_drop [of MAX_POINTS "map s_lon ss"]
    appends_drop [of MAX_POINTS "map s_vis ss"]
  by (simp_all add: foldl_append_sample initial_track_def appends_def)

lemma track_ok_append: "track_ok g \<Longrightarrow> track_ok (append_sample g s)"
  by (auto simp: track_ok_def append_sample_def deque_append_def Let_def)

lemma track_ok_initial: "track_ok initial_track"
  by (simp add: track_ok_def initial_track_def)

lemma update_map_state:
  "snd (update_map env io n track_data g) =
     (case tick_sample env io of None \<Rightarrow> g | Some s \<Rightarrow> append_sample g s)"
  by (auto simp: update_map_def tick_sample_def Let_def split: sum.splits option.splits prod.splits)

lemma update_map_track_ok:
  "track_ok g \<Longrightarrow> track_ok (snd (update_map env io n track_data g))"
  by (simp add: update_map_state track_ok_append split: option.split)

lemma run_ticks_samples:
  "run_ticks env calls g = foldl append_sample g (appended_samples env calls)"
proof (induction calls arbitrary: g)
  case Nil
  then show ?case by (simp add: run_ticks_def appended_samples_def List.map_filter_simps)
next
  case (Cons c calls)
  obtain io n track_data where c: "c = (io, n, track_data)" by (cases c)
  have "run_ticks env (c # calls) g = run_ticks env calls (snd (update_map env io n track_data g))"
    by (simp add: run_ticks_def c)
  also have "\<dots> = foldl append_sample (snd (update_map env io n track_data g))
      (appended_samples env calls)"
    by (rule Cons.IH)
  also have "\<dots> = foldl append_sample g (appended_samples env (c # calls))"
    by (simp add: update_map_state appended_samples_def List.map_filter_simps c
        split: option.split)
  finally show ?case .
qed

lemma run_ticks_track_ok: "track_ok g \<Longrightarrow> track_ok (run_ticks env calls g)"
proof (induction calls arbitrary: g)
  case Nil
  then show ?case by (simp add: run_ticks_def)
next
  case (Cons c calls)
  obtain io n track_data where c: "c = (io, n, track_data)" by (cases c)
  have "run_ticks env (c # calls) g = run_ticks env calls (snd (update_map env io n track_data g))"
    by (simp add: run_ticks_def c)
  moreover have "track_ok (snd (update_map env io n track_data g))"
    using Cons.prems by (rule update_map_track_ok)
  ultimately show ?case using Cons.IH by simp
qed

section \<open>The telemetry fetch and the sample\<close>

lemma get_iss_telemetry_timeout: "get_iss_telemetry RaisesTimeout = Inr None"
  by (simp add: get_iss_telemetry_def get_iss_telemetry_try_def requests_get_def)

lemma get_iss_telemetry_connection: "get_iss_telemetry RaisesConnectionError = Inr None"
  by (simp add: get_iss_telemetry_def get_iss_telemetry_try_def requests_get_def)

lemma get_iss_telemetry_other: "get_iss_telemetry RaisesOther = Inl OtherRequestException"
  by (simp add: get_iss_telemetry_def get_iss_telemetry_try_def requests_get_def)

lemma get_iss_telemetry_http_error:
  "400 \<le> status \<Longrightarrow> status < 600 \<Longrightarrow> get_iss_telemetry (Response status body) = Inr None"
  by (simp add: get_iss_telemetry_def get_iss_telemetry_try_def requests_get_def
      raise_for_status_def)

lemma get_iss_telemetry_not_json:
  "\<not> (400 \<le> status \<and> status < 600) \<Longrightarrow>
   get_iss_telemetry (Response status None) = Inl JSONDecodeError"
  by (simp add: get_iss_telemetry_def get_iss_telemetry_try_def requests_get_def
      raise_for_status_def resp_json_def)

lemma get_iss_telemetry_json:
  "\<not> (400 \<le> status \<and> status < 600) \<Longrightarrow>
   get_iss_telemetry (Response status (Some doc)) = Inr (Some (one_row_frame doc))"
  by (simp add: get_iss_telemetry_def get_iss_telemetry_try_def requests_get_def
      raise_for_status_def resp_json_def)

lemma float_column_cases:
  "float_column env c name =
     (case c of
        None \<Rightarrow> Inl (KeyError name)
      | Some JNull \<Rightarrow> Inl TypeError
      | Some (JBool b) \<Rightarrow> Inr (Finite (if b then 1 else 0))
      | Some (JInt i) \<Rightarrow> (case float_of_int env i of None \<Rightarrow> Inl OverflowError | Some x \<Rightarrow> Inr x)
      | Some (JFloat x) \<Rightarrow> Inr x
      | Some (JStr s) \<Rightarrow> (case float_of_str env s of None \<Rightarrow> Inl ValueError | Some x \<Rightarrow> Inr x)
      | Some (JArr xs) \<Rightarrow> Inl TypeError
      | Some (JObj kvs) \<Rightarrow> Inl TypeError)"
  by (simp add: float_column_def column_def py_float_def split: option.split json.split)

lemma float_column_exn:
  assumes "float_column env c name = Inl e"
  shows "e = KeyError name \<or> e = ValueError \<or> e = TypeError \<or> e = OverflowError"
  using assms by (auto simp: float_column_cases split: option.splits json.splits)

lemma read_sample_missing:
  "latitude df = None \<Longrightarrow> read_sample env df = Inl (KeyError ''latitude'')"
  by (simp add: read_sample_def float_column_def column_def)

lemma read_sample_overflow:
  "latitude df = Some (JInt i) \<Longrightarrow> float_of_int env i = None \<Longrightarrow>
   read_sample env df = Inl OverflowError"
  by (simp add: read_sample_def float_column_cases)

lemma read_sample_fields:
  assumes "read_sample env df = Inr s"
  shows "float_column env (latitude df) ''latitude'' = Inr (s_lat s)"
    "float_column env (longitude df) ''longitude'' = Inr (s_lon s)"
    "float_column env (altitude df) ''altitude'' = Inr (s_alt s)"
    "float_column env (velocity df) ''velocity'' = Inr (s_vel s)"
    "visibility df = Some (s_vis s)"
  using assms
  by (auto simp: read_sample_def column_def split: sum.splits option.splits)

lemma read_sample_exn:
  assumes "read_sample env df = Inl e"
  shows "(\<exists>name. e = KeyError name) \<or> e = ValueError \<or> e = TypeError \<or> e = OverflowError"
proof -
  from assms consider
      "float_column env (latitude df) ''latitude'' = Inl e"
    | "float_column env (longitude df) ''longitude'' = Inl e"
    | "float_column env (altitude df) ''altitude'' = Inl e"
    | "float_column env (velocity df) ''velocity'' = Inl e"
    | "column (visibility df) ''visibility'' = Inl e"
    by (auto simp: read_sample_def split: sum.splits)
  then show ?thesis
  proof cases
    case 5
    then show ?thesis by (auto simp: column_def split: option.splits)
  qed (blast dest: float_column_exn)+
qed

section \<open>The country lookup\<close>

lemma country_lookup_raises_get:
  "country_lookup env RaisesTimeout = Inr (''Ocean'', ''red'')"
  "country_lookup env RaisesConnectionError = Inr (''Ocean'', ''red'')"
  "country_lookup env RaisesOther = Inr (''Ocean'', ''red'')"
  by (simp_all add: country_lookup_def country_lookup_try_def requests_get_def
      is_RequestException_def)

lemma country_lookup_http_error:
  "400 \<le> status \<Longrightarrow> status < 600 \<Longrightarrow>
   country_lookup env (Response status body) = Inr (''Ocean'', ''red'')"
  by (simp add: country_lookup_def country_lookup_try_def requests_get_def
      raise_for_status_def is_RequestException_def)

lemma country_lookup_not_json:
  "country_lookup env (Response status None) = Inr (''Ocean'', ''red'')"
  by (simp add: country_lookup_def country_lookup_try_def requests_get_def
      raise_for_status_def resp_json_def is_RequestException_def)

lemma country_lookup_no_code:
  assumes "code = None \<or> code = Some JNull \<or> code = Some (JStr '''') \<or> code = Some (JStr ''??'')"
  shows "country_lookup env (Response status (Some (Object \<lparr>country_code = code\<rparr>)))
    = Inr (''Ocean'', ''red'')"
  using assms
  by (auto simp: country_lookup_def country_lookup_try_def requests_get_def
      raise_for_status_def resp_json_def is_RequestException_def dict_get_def truthy_def)

lemma country_lookup_code:
  assumes "s \<noteq> ''''" "s \<noteq> ''??''" "\<not> (400 \<le> status \<and> status < 600)"
  shows "country_lookup env (Response status (Some (Object \<lparr>country_code = Some (JStr s)\<rparr>)))
    = Inr (case countries env (str_upper env s) of Some name \<Rightarrow> name | None \<Rightarrow> s, ''red'')"
  using assms
  by (auto simp: country_lookup_def country_lookup_try_def requests_get_def
      raise_for_status_def resp_json_def dict_get_def truthy_def)

lemma country_lookup_color:
  "country_lookup env r = Inr (country_name, country_color) \<Longrightarrow> country_color = ''red''"
  by (auto simp: country_lookup_def country_lookup_try_def Let_def
      split: sum.splits prod.splits json_doc.splits json.splits if_splits option.splits)

lemma country_lookup_raises:
  "country_lookup env r = Inl e \<Longrightarrow> e = AttributeError"
  by (auto simp: country_lookup_def country_lookup_try_def requests_get_def
      raise_for_status_def resp_json_def is_RequestException_def Let_def
      split: sum.splits prod.splits json_doc.splits json.splits if_splits option.splits
        reply.splits)

section \<open>The figure of a tick\<close>

lemma color_map_known:
  "color_map vis =
     (if vis = ''daylight'' then Some ''white''
      else if vis = ''visible'' then Some ''#FFFF00''
      else if vis = ''eclipsed'' then Some ''red'' else None)"
  by (simp add: color_map_def)

lemma current_color_text:
  "current_color (VStr vis) =
     Inr (if vis = ''daylight'' then ''white''
          else if vis = ''visible'' then ''#FFFF00''
          else if vis = ''eclipsed'' then ''red'' else ''#FFFFFF'')"
  by (simp add: current_color_def color_map_find_def color_map_known)

lemma current_color_unhashable: "\<not> is_text vis \<Longrightarrow> current_color vis = Inl TypeError"
  by (cases vis) (simp_all add: current_color_def color_map_find_def is_text_def)

lemma segment_layer_cases:
  "segment_layer seg =
     (if seg_vis seg = VStr ''daylight'' then [line_trace seg ''white'']
      else if seg_vis seg = VStr ''visible'' then [line_trace seg ''#FFFF00'']
      else if seg_vis seg = VStr ''eclipsed'' then [line_trace seg ''red'']
      else [])"
  by (cases "seg_vis seg") (simp_all add: segment_layer_def color_map_find_def color_map_known)

lemma segment_layers_lines:
  "list_all (\<lambda>t. sg_mode t = ''lines'') (concat (map segment_layer segs))"
  by (induction segs) (simp_all add: segment_layer_cases line_trace_def)

lemma segment_layers_count:
  "length (concat (map segment_layer segs)) =
     length (filter (\<lambda>seg. seg_vis seg \<in> {VStr ''daylight'', VStr ''visible'', VStr ''eclipsed''})
       segs)"
  by (induction segs) (simp_all add: segment_layer_cases)

lemma add_segment_text:
  "seg \<noteq> [] \<Longrightarrow> is_text (seg_vis seg) \<Longrightarrow>
   add_segment seg traces = Inr (traces @ segment_layer seg)"
  by (cases seg; cases "seg_vis seg")
    (simp_all add: add_segment_def segment_layer_def seg_vis_def color_map_find_def is_text_def
      split: option.split)

lemma add_segment_unhashable:
  "seg \<noteq> [] \<Longrightarrow> \<not> is_text (seg_vis seg) \<Longrightarrow> add_segment seg traces = Inl TypeError"
  by (cases seg; cases "seg_vis seg")
    (simp_all add: add_segment_def seg_vis_def color_map_find_def is_text_def)

lemma add_segments_texts:
  "list_all (\<lambda>seg. seg \<noteq> [] \<and> is_text (seg_vis seg)) segs \<Longrightarrow>
   add_segments segs traces = Inr (traces @ concat (map segment_layer segs))"
  by (induction segs arbitrary: traces) (simp_all add: add_segment_text)

lemma add_segments_unhashable:
  "list_all (\<lambda>seg. seg \<noteq> []) segs \<Longrightarrow> \<not> list_all (\<lambda>seg. is_text (seg_vis seg)) segs \<Longrightarrow>
   add_segments segs traces = Inl TypeError"
proof (induction segs arbitrary: traces)
  case Nil
  then show ?case by simp
next
  case (Cons seg segs)
  show ?case
  proof (cases "is_text (seg_vis seg)")
    case True
    with Cons.prems have "add_segment seg traces = Inr (traces @ segment_layer seg)"
      by (simp add: add_segment_text)
    moreover have "add_segments segs (traces @ segment_layer seg) = Inl TypeError"
      using Cons.prems True by (intro Cons.IH) simp_all
    ultimately show ?thesis by simp
  next
    case False
    with Cons.prems have "add_segment seg traces = Inl TypeError"
      by (simp add: add_segment_unhashable)
    then show ?thesis by simp
  qed
qed

lemma segments_texts:
  "list_all (\<lambda>seg. is_text (seg_vis seg)) (split_segments df) = list_all (\<lambda>r. is_text (row_vis r)) df"
proof -
  let ?segs = "split_segments df"
  have p: "list_all (\<lambda>s. s \<noteq> [] \<and> homogeneous s) ?segs" by (rule split_segments_props(2))
  have c: "concat ?segs = df" by (rule split_segments_props(1))
  have "list_all (\<lambda>seg. is_text (seg_vis seg)) ?segs
      = list_all (\<lambda>seg. list_all (\<lambda>r. is_text (row_vis r)) seg) ?segs"
  proof (rule list.pred_cong [OF refl])
    fix seg assume "seg \<in> set ?segs"
    with p have ne: "seg \<noteq> []" and h: "\<forall>r \<in> set seg. row_vis r = seg_vis seg"
      by (auto simp: list_all_iff homogeneous_def)
    from ne obtain r where "r \<in> set seg" by (cases seg) auto
    with h show "is_text (seg_vis seg) = list_all (\<lambda>r. is_text (row_vis r)) seg"
      by (auto simp: list_all_iff)
  qed
  also have "\<dots> = list_all (\<lambda>r. is_text (row_vis r)) (concat ?segs)"
    by (auto simp: list_all_iff)
  finally show ?thesis using c by simp
qed

lemma DataFrame_track:
  "track_ok g \<Longrightarrow> DataFrame (TRACK_LAT g) (TRACK_LON g) (TRACK_VIS g) = Inr (track_rows g)"
  by (simp add: track_ok_def DataFrame_def track_rows_def)

lemma rows_vis:
  "length lats = length lons \<Longrightarrow> length lons = length viss \<Longrightarrow>
   map row_vis (map (\<lambda>(lat, lon, vis). \<lparr>row_lat = lat, row_lon = lon, row_vis = vis\<rparr>)
     (zip lats (zip lons viss))) = viss"
  by (induction lats lons viss rule: list_induct3) simp_all

lemma track_rows_vis: "track_ok g \<Longrightarrow> map row_vis (track_rows g) = TRACK_VIS g"
  unfolding track_ok_def track_rows_def by (intro rows_vis) simp_all

lemma track_rows_texts:
  "track_ok g \<Longrightarrow> list_all (\<lambda>r. is_text (row_vis r)) (track_rows g) = texts_only g"
proof -
  assume "track_ok g"
  then have "map row_vis (track_rows g) = TRACK_VIS g" by (rule track_rows_vis)
  then have "list_all is_text (map row_vis (track_rows g)) = list_all is_text (TRACK_VIS g)"
    by simp
  then show ?thesis by (simp add: texts_only_def list_all_iff)
qed

lemma texts_only_append:
  "texts_only g \<Longrightarrow> is_text (s_vis s) \<Longrightarrow> texts_only (append_sample g s)"
  by (cases "TRACK_VIS g")
    (auto simp: texts_only_def append_sample_def deque_append_def Let_def list_all_iff)

lemma not_texts_only_append:
  "\<not> is_text (s_vis s) \<Longrightarrow> \<not> texts_only (append_sample g s)"
  by (cases "TRACK_VIS g")
    (auto simp: texts_only_def append_sample_def deque_append_def Let_def MAX_POINTS_def)

lemma build_figure_texts:
  assumes "track_ok g" "texts_only g" "s_vis s = VStr vis"
  shows "build_figure env (TRACK_LAT g) (TRACK_LON g) (TRACK_VIS g) s country_name current_time =
    Inr \<lparr>fig_data = concat (map segment_layer (split_segments (track_rows g)))
            @ [main_marker (s_lat s) (s_lon s),
               inset_marker (s_lat s) (s_lon s)
                 (if vis = ''daylight'' then ''white''
                  else if vis = ''visible'' then ''#FFFF00''
                  else if vis = ''eclipsed'' then ''red'' else ''#FFFFFF'')],
         fig_image_source = ''data:image/png;base64,'' @ encoded_image env,
         fig_annotations =
           [''<b>Currently over:</b>'', ''<b>'' @ country_name @ ''</b>'',
            ''<b>'' @ current_time @ ''</b>'', legend_html]\<rparr>"
proof -
  let ?segs = "split_segments (track_rows g)"
  have "list_all (\<lambda>seg. is_text (seg_vis seg)) ?segs"
    using assms(1,2) by (simp add: segments_texts track_rows_texts)
  then have "list_all (\<lambda>seg. seg \<noteq> [] \<and> is_text (seg_vis seg)) ?segs"
    using split_segments_nonempty [of "track_rows g"] by (simp add: list_all_iff)
  then have "add_segments ?segs [] = Inr (concat (map segment_layer ?segs))"
    by (simp add: add_segments_texts)
  then show ?thesis
    using assms(1,3) by (simp add: build_figure_def DataFrame_track current_color_text)
qed

lemma build_figure_unhashable:
  assumes "track_ok g" "\<not> texts_only g"
  shows "build_figure env (TRACK_LAT g) (TRACK_LON g) (TRACK_VIS g) s country_name current_time =
    Inl TypeError"
proof -
  let ?segs = "split_segments (track_rows g)"
  have "\<not> list_all (\<lambda>seg. is_text (seg_vis seg)) ?segs"
    using assms by (simp add: segments_texts track_rows_texts)
  then have "add_segments ?segs [] = Inl TypeError"
    using split_segments_nonempty [of "track_rows g"] by (intro add_segments_unhashable)
  then show ?thesis
    using assms(1) by (simp add: build_figure_def DataFrame_track)
qed

section \<open>The form and the value of a readout\<close>

lemma digit_char_cases:
  "n < 10 \<Longrightarrow> n \<in> {0, 1, 2, 3, 4, 5, 6, 7, 8, 9 :: nat}"
  by auto

lemma is_digit_digit_char: "n < 10 \<Longrightarrow> is_digit (digit_char n)"
  using digit_char_cases [of n] by (auto simp: is_digit_def digit_char_def)

lemma digit_value_digit_char: "n < 10 \<Longrightarrow> digit_value (digit_char n) = n"
  using digit_char_cases [of n] by (auto simp: digit_value_def digit_char_def)

lemma dec_digits: "dec n \<noteq> [] \<and> list_all is_digit (dec n)"
proof (induction n rule: dec.induct)
  case (1 n)
  show ?case
  proof (cases "n < 10")
    case True
    then show ?thesis by (subst (1 2) dec.simps) (simp add: is_digit_digit_char)
  next
    case False
    then have "dec (n div 10) \<noteq> [] \<and> list_all is_digit (dec (n div 10))" by (rule "1.IH")
    moreover have "is_digit (digit_char (n mod 10))" by (simp add: is_digit_digit_char)
    ultimately show ?thesis using False by (subst (1 2) dec.simps) simp
  qed
qed

lemma digits_value_snoc: "digits_value (ds @ [c]) = 10 * digits_value ds + digit_value c"
  by (simp add: digits_value_def)

lemma digits_value_dec: "digits_value (dec n) = n"
proof (induction n rule: dec.induct)
  case (1 n)
  show ?case
  proof (cases "n < 10")
    case True
    then have "dec n = [digit_char n]" by (subst dec.simps) simp
    then show ?thesis using True by (simp add: digits_value_def digit_value_digit_char)
  next
    case False
    then have "dec n = dec (n div 10) @ [digit_char (n mod 10)]" by (subst dec.simps) simp
    moreover have "digits_value (dec (n div 10)) = n div 10" using False by (rule "1.IH")
    ultimately show ?thesis by (simp add: digits_value_snoc digit_value_digit_char)
  qed
qed

lemma two_decimals_digits:
  assumes "ds \<noteq> []" "list_all is_digit ds" "is_digit d1" "is_digit d2"
  shows "two_decimals (ds @ ''.'' @ [d1, d2])" "two_decimals (''-'' @ ds @ ''.'' @ [d1, d2])"
proof -
  obtain c cs where ds: "ds = c # cs" using assms(1) by (cases ds) auto
  then have "is_digit c" using assms(2) by simp
  then have c: "c \<noteq> CHR ''-''" by (auto simp: is_digit_def)
  have body: "3 < length (ds @ ''.'' @ [d1, d2]) \<and>
      list_all is_digit (take (length (ds @ ''.'' @ [d1, d2]) - 3) (ds @ ''.'' @ [d1, d2])) \<and>
      (ds @ ''.'' @ [d1, d2]) ! (length (ds @ ''.'' @ [d1, d2]) - 3) = CHR ''.'' \<and>
      is_digit ((ds @ ''.'' @ [d1, d2]) ! (length (ds @ ''.'' @ [d1, d2]) - 3 + 1)) \<and>
      is_digit ((ds @ ''.'' @ [d1, d2]) ! (length (ds @ ''.'' @ [d1, d2]) - 3 + 2))"
    using assms by (simp add: nth_append)
  show "two_decimals (ds @ ''.'' @ [d1, d2])"
    unfolding two_decimals_def Let_def using body c ds by simp
  show "two_decimals (''-'' @ ds @ ''.'' @ [d1, d2])"
    unfolding two_decimals_def Let_def using body by simp
qed

lemma two_decimals_format_finite: "two_decimals (format_finite x)"
proof -
  let ?h = "hundredths x"
  have d: "dec (?h div 100) \<noteq> []" "list_all is_digit (dec (?h div 100))"
    using dec_digits [of "?h div 100"] by simp_all
  have d1: "is_digit (digit_char (?h div 10 mod 10))" by (simp add: is_digit_digit_char)
  have d2: "is_digit (digit_char (?h mod 10))" by (simp add: is_digit_digit_char)
  show ?thesis
    using two_decimals_digits [OF d d1 d2] by (simp add: format_finite_def)
qed

lemma value_2f_digits:
  assumes "ds \<noteq> []" "list_all is_digit ds"
  shows "value_2f (ds @ ''.'' @ [d1, d2])
      = of_nat (digits_value ds) + of_nat (10 * digit_value d1 + digit_value d2) / 100"
    "value_2f (''-'' @ ds @ ''.'' @ [d1, d2])
      = - (of_nat (digits_value ds) + of_nat (10 * digit_value d1 + digit_value d2) / 100)"
proof -
  obtain c cs where ds: "ds = c # cs" using assms(1) by (cases ds) auto
  then have "is_digit c" using assms(2) by simp
  then have c: "c \<noteq> CHR ''-''" by (auto simp: is_digit_def)
  let ?t = "ds @ ''.'' @ [d1, d2]"
  have k: "length ?t - 3 = length ds" by simp
  have parts: "take (length ?t - 3) ?t = ds" "drop (length ?t - 3 + 1) ?t = [d1, d2]"
    unfolding k by simp_all
  have two: "digits_value [d1, d2] = 10 * digit_value d1 + digit_value d2"
    by (simp add: digits_value_def)
  have pos: "take 1 ?t \<noteq> ''-''" using c ds by simp
  show "value_2f ?t
      = of_nat (digits_value ds) + of_nat (10 * digit_value d1 + digit_value d2) / 100"
    unfolding value_2f_def Let_def using pos by (simp only: parts two if_False simp_thms)
  have neg: "take 1 (''-'' @ ?t) = ''-''" "drop 1 (''-'' @ ?t) = ?t" by simp_all
  show "value_2f (''-'' @ ?t)
      = - (of_nat (digits_value ds) + of_nat (10 * digit_value d1 + digit_value d2) / 100)"
    unfolding value_2f_def Let_def by (simp only: neg parts two if_True simp_thms)
qed

lemma last_two_digits: "10 * (n div 10 mod 10) + n mod 10 = n mod (100 :: nat)"
  using mod_mult2_eq [of n 10 10] by simp

lemma hundreds_and_rest:
  "(of_nat (n div 100) :: rat) + of_nat (n mod 100) / 100 = of_nat n / 100"
proof -
  have "(of_nat n :: rat) = of_nat (100 * (n div 100) + n mod 100)" by simp
  also have "\<dots> = 100 * of_nat (n div 100) + of_nat (n mod 100)"
    by (simp only: of_nat_add of_nat_mult of_nat_numeral)
  finally show ?thesis by simp
qed

lemma value_2f_format_finite:
  "value_2f (format_finite x) = (if x < 0 then - 1 else 1) * (of_nat (hundredths x) / 100)"
proof -
  let ?h = "hundredths x"
  have d: "dec (?h div 100) \<noteq> []" "list_all is_digit (dec (?h div 100))"
    using dec_digits [of "?h div 100"] by simp_all
  have dv: "digit_value (digit_char (?h div 10 mod 10)) = ?h div 10 mod 10"
    "digit_value (digit_char (?h mod 10)) = ?h mod 10"
    by (simp_all add: digit_value_digit_char)
  have v: "(of_nat (digits_value (dec (?h div 100))) :: rat)
      + of_nat (10 * digit_value (digit_char (?h div 10 mod 10))
                + digit_value (digit_char (?h mod 10))) / 100 = of_nat ?h / 100"
    by (simp only: digits_value_dec dv last_two_digits hundreds_and_rest)
  show ?thesis
  proof (cases "x < 0")
    case True
    then have "format_finite x = ''-'' @ dec (?h div 100) @ ''.''
        @ [digit_char (?h div 10 mod 10), digit_char (?h mod 10)]"
      by (simp add: format_finite_def)
    then have "value_2f (format_finite x) = - (of_nat ?h / 100)"
      by (simp only: value_2f_digits(2) [OF d] v)
    then show ?thesis using True by simp
  next
    case False
    then have "format_finite x = dec (?h div 100) @ ''.''
        @ [digit_char (?h div 10 mod 10), digit_char (?h mod 10)]"
      by (simp add: format_finite_def)
    then have "value_2f (format_finite x) = of_nat ?h / 100"
      by (simp only: value_2f_digits(1) [OF d] v)
    then show ?thesis using False by simp
  qed
qed

lemma round_half_even_close: "\<bar>of_int (round_half_even y) - y\<bar> \<le> 1 / 2"
proof -
  have "of_int \<lfloor>y\<rfloor> \<le> y" "y < of_int \<lfloor>y\<rfloor> + 1" by linarith+
  then show ?thesis by (auto simp: round_half_even_def Let_def)
qed

lemma round_half_even_nonneg: "0 \<le> y \<Longrightarrow> 0 \<le> round_half_even y"
proof -
  assume "0 \<le> y"
  then have "0 \<le> \<lfloor>y\<rfloor>" by simp
  then show ?thesis by (auto simp: round_half_even_def Let_def)
qed

lemma hundredths_close: "\<bar>of_nat (hundredths x) / 100 - \<bar>x\<bar>\<bar> \<le> 1 / 200"
proof -
  let ?y = "\<bar>x\<bar> * 100"
  have "0 \<le> round_half_even ?y" by (rule round_half_even_nonneg) simp
  then have "(of_nat (hundredths x) :: rat) = of_int (round_half_even ?y)"
    by (simp add: hundredths_def)
  moreover have "\<bar>of_int (round_half_even ?y) - ?y\<bar> \<le> 1 / 2" by (rule round_half_even_close)
  ultimately have "\<bar>of_nat (hundredths x) - \<bar>x\<bar> * 100\<bar> \<le> 1 / 2" by simp
  then show ?thesis by (simp add: abs_le_iff field_simps)
qed

lemma value_2f_close: "\<bar>value_2f (format_finite x) - x\<bar> \<le> 1 / 200"
proof (cases "x < 0")
  case True
  then have "value_2f (format_finite x) - x = - (of_nat (hundredths x) / 100 - \<bar>x\<bar>)"
    by (simp add: value_2f_format_finite)
  then have "\<bar>value_2f (format_finite x) - x\<bar> = \<bar>of_nat (hundredths x) / 100 - \<bar>x\<bar>\<bar>"
    by (simp only: abs_minus_cancel)
  then show ?thesis using hundredths_close [of x] by simp
next
  case False
  then have "value_2f (format_finite x) - x = of_nat (hundredths x) / 100 - \<bar>x\<bar>"
    by (simp add: value_2f_format_finite)
  then show ?thesis using hundredths_close [of x] by simp
qed

lemma format_finite_sign: "(take 1 (format_finite x) = ''-'') = (x < 0)"
proof (cases "x < 0")
  case True
  then show ?thesis by (simp add: format_finite_def)
next
  case False
  obtain c cs where d: "dec (hundredths x div 100) = c # cs"
    using dec_digits [of "hundredths x div 100"] by (cases "dec (hundredths x div 100)") auto
  then have "is_digit c" using dec_digits [of "hundredths x div 100"] by simp
  then have "c \<noteq> CHR ''-''" by (auto simp: is_digit_def)
  then show ?thesis using False d by (simp add: format_finite_def)
qed

lemma not_two_decimals_names:
  "\<not> two_decimals ''nan''" "\<not> two_decimals ''inf''" "\<not> two_decimals ''-inf''"
  by (simp_all add: two_decimals_def)

section \<open>The outcomes of a tick\<close>

lemma update_map_no_sample:
  "get_iss_telemetry (telemetry io) = Inr None \<Longrightarrow>
   update_map env io n track_data g = (Inl PreventUpdate, g)"
  by (simp add: update_map_def)

lemma update_map_fetch_raises:
  "get_iss_telemetry (telemetry io) = Inl e \<Longrightarrow> update_map env io n track_data g = (Inl e, g)"
  by (simp add: update_map_def)

lemma update_map_read_raises:
  "get_iss_telemetry (telemetry io) = Inr (Some df) \<Longrightarrow> read_sample env df = Inl e \<Longrightarrow>
   update_map env io n track_data g = (Inl e, g)"
  by (simp add: update_map_def)

lemma update_map_ok:
  assumes "track_ok g" and "texts_only (append_sample g s)"
    and "get_iss_telemetry (telemetry io) = Inr (Some df)"
    and "read_sample env df = Inr s" and "s_vis s = VStr vis"
    and "country_lookup env (geocode io) = Inr (country_name, country_color)"
  shows "update_map env io n track_data g =
    (Inr \<lparr>out_figure =
            \<lparr>fig_data = concat (map segment_layer (split_segments (track_rows (append_sample g s))))
               @ [main_marker (s_lat s) (s_lon s),
                  inset_marker (s_lat s) (s_lon s)
                    (if vis = ''daylight'' then ''white''
                     else if vis = ''visible'' then ''#FFFF00''
                     else if vis = ''eclipsed'' then ''red'' else ''#FFFFFF'')],
             fig_image_source = ''data:image/png;base64,'' @ encoded_image env,
             fig_annotations =
               [''<b>Currently over:</b>'', ''<b>'' @ country_name @ ''</b>'',
                ''<b>'' @ utcnow io @ ''</b>'', legend_html]\<rparr>,
          out_lat = format_2f (s_lat s), out_lon = format_2f (s_lon s),
          out_alt = format_2f (s_alt s), out_vel = format_2f (s_vel s),
          out_store = \<lparr>store_lat = TRACK_LAT (append_sample g s),
                       store_lon = TRACK_LON (append_sample g s),
                       store_vis = TRACK_VIS (append_sample g s)\<rparr>\<rparr>,
     append_sample g s)"
proof -
  have ok: "track_ok (append_sample g s)" using assms(1) by (rule track_ok_append)
  show ?thesis
    using assms(3,4,6)
    by (simp add: update_map_def Let_def build_figure_texts [OF ok assms(2) assms(5)])
qed

lemma update_map_ok_figure:
  assumes "track_ok g" and "texts_only (append_sample g s)"
    and "get_iss_telemetry (telemetry io) = Inr (Some df)"
    and "read_sample env df = Inr s" and "s_vis s = VStr vis"
    and "country_lookup env (geocode io) = Inr loc"
  shows "\<exists>out. update_map env io n track_data g = (Inr out, append_sample g s)
      \<and> fig_data (out_figure out) =
          concat (map segment_layer (split_segments (track_rows (append_sample g s))))
          @ [main_marker (s_lat s) (s_lon s),
             inset_marker (s_lat s) (s_lon s)
               (if vis = ''daylight'' then ''white''
                else if vis = ''visible'' then ''#FFFF00''
                else if vis = ''eclipsed'' then ''red'' else ''#FFFFFF'')]
      \<and> out_store out = \<lparr>store_lat = TRACK_LAT (append_sample g s),
                          store_lon = TRACK_LON (append_sample g s),
                          store_vis = TRACK_VIS (append_sample g s)\<rparr>"
proof -
  obtain country_name country_color where "loc = (country_name, country_color)" by (cases loc)
  with assms(6) have c: "country_lookup env (geocode io) = Inr (country_name, country_color)"
    by simp
  show ?thesis by (simp add: update_map_ok [OF assms(1-5) c])
qed

lemma update_map_unhashable:
  assumes "track_ok g" and "\<not> texts_only (append_sample g s)"
    and "get_iss_telemetry (telemetry io) = Inr (Some df)"
    and "read_sample env df = Inr s"
    and "country_lookup env (geocode io) = Inr loc"
  shows "update_map env io n track_data g = (Inl TypeError, append_sample g s)"
proof -
  have ok: "track_ok (append_sample g s)" using assms(1) by (rule track_ok_append)
  show ?thesis
    using assms(3-5)
    by (simp add: update_map_def Let_def build_figure_unhashable [OF ok assms(2)]
        split: prod.split)
qed

lemma texts_only_append_vis:
  assumes "texts_only (append_sample g s)"
  shows "\<exists>vis. s_vis s = VStr vis"
proof -
  have "is_text (s_vis s)" using assms not_texts_only_append [of s g] by blast
  then show ?thesis by (cases "s_vis s") (simp_all add: is_text_def)
qed

lemma update_map_InrD:
  assumes "fst (update_map env io n track_data g) = Inr out"
  shows "\<exists>df s loc. get_iss_telemetry (telemetry io) = Inr (Some df)
      \<and> read_sample env df = Inr s \<and> country_lookup env (geocode io) = Inr loc
      \<and> out_lat out = format_2f (s_lat s) \<and> out_lon out = format_2f (s_lon s)
      \<and> out_alt out = format_2f (s_alt s) \<and> out_vel out = format_2f (s_vel s)
      \<and> snd (update_map env io n track_data g) = append_sample g s"
  using assms
  by (auto simp: update_map_def Let_def split: sum.splits option.splits prod.splits)

section \<open>The tick on the inputs of the closed instances\<close>

lemma split_segments_abc:
  "split_segments [row_a, row_b, row_c] = [[row_a, row_b], [row_c]]"
  by (simp add: split_segments_def split_step_def iloc_slice_def upt_rec row_a_def row_b_def
      row_c_def)

lemma demo_fetch: "get_iss_telemetry (telemetry demo_io) = Inr (Some demo_data)"
  by (simp add: demo_io_def get_iss_telemetry_json one_row_frame_def)

lemma demo_read: "read_sample demo_env demo_data = Inr demo_sample"
  by (simp add: read_sample_def float_column_cases column_def demo_data_def demo_env_def
      demo_sample_def)

lemma demo_upper: "str_upper demo_env ''fr'' = ''FR''" "str_upper demo_env ''zz'' = ''ZZ''"
  by (simp_all add: demo_env_def ascii_upper_def)

lemma demo_country: "country_lookup demo_env (geocode demo_io) = Inr (''France'', ''red'')"
  by (simp add: demo_io_def country_lookup_code demo_upper) (simp add: demo_env_def)

lemma demo_track_ok: "track_ok demo_track" "track_ok array_track"
  by (simp_all add: track_ok_def demo_track_def array_track_def MAX_POINTS_def)

lemma demo_texts_only:
  "texts_only demo_track" "\<not> texts_only array_track"
  "texts_only (append_sample demo_track demo_sample)"
  "texts_only (append_sample demo_track (demo_sample\<lparr>s_lat := NaN\<rparr>))"
  "texts_only (append_sample demo_track (demo_sample\<lparr>s_vis := VStr ''penumbra''\<rparr>))"
  "\<not> texts_only (append_sample array_track demo_sample)"
  by (simp_all add: texts_only_def demo_track_def array_track_def is_text_def append_sample_def
      deque_append_def MAX_POINTS_def demo_sample_def)

lemma demo_append:
  "append_sample demo_track demo_sample =
     \<lparr>TRACK_LAT = [Finite 1, Finite 2, Finite (1 / 8)],
      TRACK_LON = [Finite 10, Finite 20, Finite (- 3 / 8)],
      TRACK_VIS = [VStr ''daylight'', VStr ''penumbra'', VStr ''eclipsed'']\<rparr>"
  by (simp add: append_sample_def demo_track_def demo_sample_def deque_append_def
      MAX_POINTS_def)

lemma demo_segments:
  "split_segments (track_rows (append_sample demo_track demo_sample)) =
     [[\<lparr>row_lat = Finite 1, row_lon = Finite 10, row_vis = VStr ''daylight''\<rparr>],
      [\<lparr>row_lat = Finite 2, row_lon = Finite 20, row_vis = VStr ''penumbra''\<rparr>],
      [\<lparr>row_lat = Finite (1 / 8), row_lon = Finite (- 3 / 8), row_vis = VStr ''eclipsed''\<rparr>]]"
  by (simp add: demo_append track_rows_def split_segments_def split_step_def iloc_slice_def
      upt_rec)

lemma demo_finite_formats:
  "format_finite (1 / 8) = ''0.12''" "format_finite (- 3 / 8) = ''-0.38''"
  "format_finite (25 / 2) = ''12.50''" "format_finite (27 / 2) = ''13.50''"
  by code_simp+

lemma demo_formats:
  "format_2f (s_lat demo_sample) = ''0.12''" "format_2f (s_lon demo_sample) = ''-0.38''"
  "format_2f (s_alt demo_sample) = ''12.50''" "format_2f (s_vel demo_sample) = ''13.50''"
  unfolding demo_sample_def sample.simps format_2f_def pyfloat.simps
  by (rule demo_finite_formats)+

lemma demo_vis: "s_vis demo_sample = VStr ''eclipsed''"
  by (simp add: demo_sample_def)

lemma format_2f_names:
  "format_2f NegZero = ''-0.00''" "format_2f PosInf = ''inf''" "format_2f NegInf = ''-inf''"
  "format_2f NaN = ''nan''" "format_2f (Finite x) = format_finite x"
  by (simp_all add: format_2f_def)

lemma demo_tick:
  "\<exists>out. update_map demo_env demo_io 3 demo_store demo_track
      = (Inr out, append_sample demo_track demo_sample)
    \<and> out_lat out = ''0.12'' \<and> out_lon out = ''-0.38'' \<and> out_alt out = ''12.50''
    \<and> out_vel out = ''13.50''"
  by (simp add: demo_formats
      update_map_ok [OF demo_track_ok(1) demo_texts_only(3) demo_fetch demo_read demo_vis
        demo_country])

lemma no_fields_fetch:
  "get_iss_telemetry (telemetry (demo_io\<lparr>telemetry := Response 200 (Some (Object no_fields))\<rparr>))
     = Inr (Some no_fields)"
  by (simp add: get_iss_telemetry_json one_row_frame_def)

lemma data_fetch:
  "get_iss_telemetry (telemetry (demo_io\<lparr>telemetry := Response 200 (Some (Object data))\<rparr>))
     = Inr (Some data)"
  by (simp add: get_iss_telemetry_json one_row_frame_def)

lemma data_country:
  "country_lookup demo_env (geocode (demo_io\<lparr>telemetry := t\<rparr>)) = Inr (''France'', ''red'')"
  using demo_country by (simp add: demo_io_def)

lemma array_read:
  "read_sample demo_env array_data = Inr (demo_sample\<lparr>s_vis := VArr [VStr ''daylight'']\<rparr>)"
  by (simp add: read_sample_def float_column_cases column_def demo_data_def demo_env_def
      demo_sample_def array_data_def)

lemma nan_read:
  "read_sample demo_env nan_data = Inr (demo_sample\<lparr>s_lat := NaN\<rparr>)"
  by (simp add: read_sample_def float_column_cases column_def demo_data_def demo_env_def
      demo_sample_def nan_data_def)

lemma array_tick:
  "update_map demo_env (demo_io\<lparr>telemetry := Response 200 (Some (Object array_data))\<rparr>)
      3 demo_store demo_track
    = (Inl TypeError, append_sample demo_track (demo_sample\<lparr>s_vis := VArr [VStr ''daylight'']\<rparr>))"
  by (rule update_map_unhashable [OF demo_track_ok(1) _ data_fetch array_read data_country])
    (simp add: not_texts_only_append is_text_def)

lemma array_track_reached:
  "append_sample demo_track (demo_sample\<lparr>s_vis := VArr [VStr ''daylight'']\<rparr>) = array_track"
  by (simp add: append_sample_def demo_track_def demo_sample_def deque_append_def
      MAX_POINTS_def array_track_def)

lemma array_track_tick:
  "update_map demo_env demo_io 4 demo_store array_track
    = (Inl TypeError, append_sample array_track demo_sample)"
  by (rule update_map_unhashable
      [OF demo_track_ok(2) demo_texts_only(6) demo_fetch demo_read demo_country])

lemma penumbra_read:
  "read_sample demo_env (demo_data\<lparr>visibility := Some (VStr ''penumbra'')\<rparr>)
     = Inr (demo_sample\<lparr>s_vis := VStr ''penumbra''\<rparr>)"
  by (simp add: read_sample_def float_column_cases column_def demo_data_def demo_env_def
      demo_sample_def)

lemma bit_length_power2: "bit_length (2 ^ k) = Suc k"
  by (induction k) (simp_all add: bit_length.simps)

lemma int_to_float_overflow: "int_to_float (2 ^ 1024) = None"
proof -
  have "\<bar>2 ^ 1024 :: int\<bar> = 2 ^ 1024" by (rule abs_of_nonneg) (rule zero_le_power, simp)
  moreover have "nat (2 ^ 1024 :: int) = 2 ^ 1024"
    using nat_power_eq [of 2 1024] by simp
  ultimately have a: "nat \<bar>2 ^ 1024 :: int\<bar> = 2 ^ 1024" by (simp only:)
  have e: "bit_length (2 ^ 1024) - 53 = 972" by (simp only: bit_length_power2)
  have q: "(2::nat) ^ 1024 div 2 ^ 972 = 2 ^ 52"
    using power_diff [of "2::nat" 972 1024] by simp
  have r: "(2::nat) ^ 1024 mod 2 ^ 972 = 0"
    by (simp only: mod_eq_0_iff_dvd) (rule le_imp_power_dvd, simp)
  have m: "(2::nat) ^ 52 * 2 ^ 972 = 2 ^ 1024"
    using power_add [of "2::nat" 52 972] by simp
  have c: "\<not> ((2::nat) ^ 972 < 2 * 0 \<or> (2 * 0 = (2::nat) ^ 972 \<and> odd ((2::nat) ^ 52)))"
    by simp
  show ?thesis
    unfolding int_to_float_def Let_def a e q r
    by (simp only: c if_False m le_refl if_True)
qed

lemma huge_read: "read_sample demo_env huge_data = Inl OverflowError"
proof (rule read_sample_overflow)
  show "latitude huge_data = Some (JInt (2 ^ 1024))"
    unfolding huge_data_def demo_data_def by (simp only: iss_data.simps)
  have "float_of_int demo_env = int_to_float" unfolding demo_env_def by (simp only: env.simps)
  then show "float_of_int demo_env (2 ^ 1024) = None" by (simp only: int_to_float_overflow)
qed

lemma array_segments:
  "split_segments (track_rows (append_sample array_track demo_sample)) =
     [[\<lparr>row_lat = Finite 1, row_lon = Finite 10, row_vis = VStr ''daylight''\<rparr>],
      [\<lparr>row_lat = Finite 2, row_lon = Finite 20, row_vis = VStr ''penumbra''\<rparr>],
      [\<lparr>row_lat = Finite (1 / 8), row_lon = Finite (- 3 / 8),
        row_vis = VArr [VStr ''daylight'']\<rparr>],
      [\<lparr>row_lat = Finite (1 / 8), row_lon = Finite (- 3 / 8), row_vis = VStr ''eclipsed''\<rparr>]]"
  by (simp add: append_sample_def array_track_def demo_sample_def deque_append_def
      MAX_POINTS_def track_rows_def split_segments_def split_step_def iloc_slice_def upt_rec)

lemma map_filter_replicate:
  "f x = Some y \<Longrightarrow> List.map_filter f (replicate n x) = replicate n y"
  by (induction n) (simp_all add: List.map_filter_simps)

lemma demo_tick_sample:
  "tick_sample demo_env demo_io = Some demo_sample"
  "tick_sample demo_env (demo_io\<lparr>telemetry := RaisesTimeout\<rparr>) = None"
  "tick_sample demo_env (demo_io\<lparr>telemetry := Response 200 (Some (Object nan_data))\<rparr>)
     = Some (demo_sample\<lparr>s_lat := NaN\<rparr>)"
  using data_country [of "Response 200 (Some (Object nan_data))"] data_fetch [of nan_data]
  by (simp_all add: tick_sample_def demo_fetch demo_read demo_country nan_read
      get_iss_telemetry_timeout)

lemma nan_tick:
  "readouts (fst (update_map demo_env
      (demo_io\<lparr>telemetry := Response 200 (Some (Object nan_data))\<rparr>) 3 demo_store demo_track))
    = Inr (''nan'', ''-0.38'', ''12.50'', ''13.50'')"
proof -
  have "s_vis (demo_sample\<lparr>s_lat := NaN\<rparr>) = VStr ''eclipsed''" by (simp add: demo_vis)
  from update_map_ok [OF demo_track_ok(1) demo_texts_only(4) data_fetch nan_read this
      data_country]
  show ?thesis by (simp add: readouts_def demo_formats format_2f_names)
qed

section \<open>The claims\<close>

text \<open>
  Claim C1. A bounded deque that starts empty never holds more elements than its capacity,
  and after any sequence of \<^verbatim>\<open>append\<close> calls it holds the last elements appended, as
  many as the capacity (all of them while fewer were appended), in the order of their
  arrival; an \<^verbatim>\<open>append\<close> on a full deque removes exactly its oldest element. The capacity
  of the track deques is \<open>MAX_POINTS = 1080\<close>. In the program: a call of \<^verbatim>\<open>update_map\<close>
  either leaves the three deques as they are or appends the sample it has read to each of
  them, and a call that returns its outputs has appended it; the append of a sample to
  full deques removes the oldest latitude, longitude and visibility and puts the new ones
  last; and after any sequence of calls that starts with the empty deques of the module,
  each deque holds the last 1080 appended samples (all of them while fewer were appended)
  in the order of the calls, and the three deques hold equally many elements, at most 1080.
\<close>

theorem track_buffer_bounded_fifo:
  "MAX_POINTS = 1080
   \<and> length (appends maxlen xs) \<le> maxlen
   \<and> appends maxlen xs = drop (length xs - maxlen) xs
   \<and> appends maxlen (xs @ [x]) = deque_append maxlen (appends maxlen xs) x
   \<and> (length d = MAX_POINTS \<longrightarrow> deque_append MAX_POINTS d x = tl d @ [x])
   \<and> (length d \<le> MAX_POINTS \<longrightarrow> length (deque_append MAX_POINTS d x) \<le> MAX_POINTS)
   \<and> track_ok initial_track
   \<and> (track_ok g \<longrightarrow> track_ok (snd (update_map env io n track_data g)))
   \<and> snd (update_map env io n track_data g)
       = (case tick_sample env io of None \<Rightarrow> g | Some s \<Rightarrow> append_sample g s)
   \<and> (fst (update_map env io n track_data g) = Inr out \<longrightarrow>
        (\<exists>df s. get_iss_telemetry (telemetry io) = Inr (Some df) \<and> read_sample env df = Inr s
           \<and> snd (update_map env io n track_data g) = append_sample g s))
   \<and> (length (TRACK_LAT g) = MAX_POINTS \<longrightarrow>
        TRACK_LAT (append_sample g s) = tl (TRACK_LAT g) @ [s_lat s])
   \<and> (length (TRACK_LON g) = MAX_POINTS \<longrightarrow>
        TRACK_LON (append_sample g s) = tl (TRACK_LON g) @ [s_lon s])
   \<and> (length (TRACK_VIS g) = MAX_POINTS \<longrightarrow>
        TRACK_VIS (append_sample g s) = tl (TRACK_VIS g) @ [s_vis s])
   \<and> (length (TRACK_LAT g) < MAX_POINTS \<longrightarrow>
        TRACK_LAT (append_sample g s) = TRACK_LAT g @ [s_lat s])
   \<and> (length (TRACK_LON g) < MAX_POINTS \<longrightarrow>
        TRACK_LON (append_sample g s) = TRACK_LON g @ [s_lon s])
   \<and> (length (TRACK_VIS g) < MAX_POINTS \<longrightarrow>
        TRACK_VIS (append_sample g s) = TRACK_VIS g @ [s_vis s])
   \<and> TRACK_LAT (run_ticks env calls initial_track)
       = drop (length (appended_samples env calls) - MAX_POINTS)
           (map s_lat (appended_samples env calls))
   \<and> TRACK_LON (run_ticks env calls initial_track)
       = drop (length (appended_samples env calls) - MAX_POINTS)
           (map s_lon (appended_samples env calls))
   \<and> TRACK_VIS (run_ticks env calls initial_track)
       = drop (length (appended_samples env calls) - MAX_POINTS)
           (map s_vis (appended_samples env calls))
   \<and> track_ok (run_ticks env calls initial_track)"
proof -
  have pos: "0 < MAX_POINTS" by (simp add: MAX_POINTS_def)
  have "length (appends maxlen xs) \<le> maxlen"
    by (simp add: appends_drop)
  moreover have "fst (update_map env io n track_data g) = Inr out \<longrightarrow>
      (\<exists>df s. get_iss_telemetry (telemetry io) = Inr (Some df) \<and> read_sample env df = Inr s
         \<and> snd (update_map env io n track_data g) = append_sample g s)"
    by (blast dest: update_map_InrD)
  moreover have "snd (update_map env io n track_data g)
      = (case tick_sample env io of None \<Rightarrow> g | Some s \<Rightarrow> append_sample g s)"
    by (rule update_map_state)
  moreover have "TRACK_LAT (run_ticks env calls initial_track)
      = drop (length (appended_samples env calls) - MAX_POINTS)
          (map s_lat (appended_samples env calls))"
    "TRACK_LON (run_ticks env calls initial_track)
      = drop (length (appended_samples env calls) - MAX_POINTS)
          (map s_lon (appended_samples env calls))"
    "TRACK_VIS (run_ticks env calls initial_track)
      = drop (length (appended_samples env calls) - MAX_POINTS)
          (map s_vis (appended_samples env calls))"
    by (simp_all only: run_ticks_samples appended_from_empty)
  moreover have "track_ok (run_ticks env calls initial_track)"
    using track_ok_initial by (rule run_ticks_track_ok)
  moreover have "length (TRACK_LAT g) = MAX_POINTS \<longrightarrow>
      TRACK_LAT (append_sample g s) = tl (TRACK_LAT g) @ [s_lat s]"
    "length (TRACK_LON g) = MAX_POINTS \<longrightarrow>
      TRACK_LON (append_sample g s) = tl (TRACK_LON g) @ [s_lon s]"
    "length (TRACK_VIS g) = MAX_POINTS \<longrightarrow>
      TRACK_VIS (append_sample g s) = tl (TRACK_VIS g) @ [s_vis s]"
    using pos by (simp_all add: append_sample_fields deque_append_full)
  moreover have "length (TRACK_LAT g) < MAX_POINTS \<longrightarrow>
      TRACK_LAT (append_sample g s) = TRACK_LAT g @ [s_lat s]"
    "length (TRACK_LON g) < MAX_POINTS \<longrightarrow>
      TRACK_LON (append_sample g s) = TRACK_LON g @ [s_lon s]"
    "length (TRACK_VIS g) < MAX_POINTS \<longrightarrow>
      TRACK_VIS (append_sample g s) = TRACK_VIS g @ [s_vis s]"
    by (simp_all add: append_sample_fields deque_append_room)
  moreover have "MAX_POINTS = 1080" by (simp add: MAX_POINTS_def)
  moreover have "appends maxlen xs = drop (length xs - maxlen) xs" by (rule appends_drop)
  moreover have "appends maxlen (xs @ [x]) = deque_append maxlen (appends maxlen xs) x"
    by (rule appends_snoc)
  moreover have "length d = MAX_POINTS \<longrightarrow> deque_append MAX_POINTS d x = tl d @ [x]"
    using pos by (simp add: deque_append_full)
  moreover have "length d \<le> MAX_POINTS \<longrightarrow> length (deque_append MAX_POINTS d x) \<le> MAX_POINTS"
    by (simp add: deque_append_length)
  moreover have "track_ok g \<longrightarrow> track_ok (snd (update_map env io n track_data g))"
    by (simp add: update_map_track_ok)
  ultimately show ?thesis using track_ok_initial by (intro conjI) assumption+
qed

theorem track_buffer_bounded_fifo_witness:
  "length (replicate 1080 (0::nat)) = MAX_POINTS
   \<and> deque_append MAX_POINTS (replicate 1080 (0::nat)) 7 = replicate 1079 0 @ [7]
   \<and> length (deque_append MAX_POINTS (replicate 1080 (0::nat)) 7) \<le> MAX_POINTS
   \<and> appends MAX_POINTS (replicate 2000 (1::nat)) = replicate 1080 1
   \<and> appends 3 [1, 2, 3, 4::nat] = [2, 3, 4]
   \<and> track_ok demo_track
   \<and> track_ok (snd (update_map demo_env demo_io 3 demo_store demo_track))
   \<and> snd (update_map demo_env demo_io 3 demo_store demo_track)
       = append_sample demo_track demo_sample
   \<and> length (TRACK_LAT demo_track) < MAX_POINTS
   \<and> TRACK_LAT (append_sample demo_track demo_sample) = [Finite 1, Finite 2, Finite (1 / 8)]
   \<and> appended_samples demo_env
        ((demo_io\<lparr>telemetry := Response 200 (Some (Object nan_data))\<rparr>, 0, demo_store)
         # (demo_io\<lparr>telemetry := RaisesTimeout\<rparr>, 1, demo_store)
         # replicate 1080 (demo_io, 2, demo_store))
       = demo_sample\<lparr>s_lat := NaN\<rparr> # replicate 1080 demo_sample
   \<and> TRACK_LAT (run_ticks demo_env
        ((demo_io\<lparr>telemetry := Response 200 (Some (Object nan_data))\<rparr>, 0, demo_store)
         # (demo_io\<lparr>telemetry := RaisesTimeout\<rparr>, 1, demo_store)
         # replicate 1080 (demo_io, 2, demo_store)) initial_track)
       = replicate 1080 (Finite (1 / 8))"
proof -
  let ?calls = "(demo_io\<lparr>telemetry := Response 200 (Some (Object nan_data))\<rparr>, 0, demo_store)
         # (demo_io\<lparr>telemetry := RaisesTimeout\<rparr>, 1, demo_store)
         # replicate 1080 (demo_io, 2::nat, demo_store)"
  have len: "length (replicate 1080 (0::nat)) = MAX_POINTS" by (simp add: MAX_POINTS_def)
  have tl: "tl (replicate 1080 (0::nat)) = replicate 1079 0" by (simp add: tl_replicate)
  have dr: "drop (length (replicate 2000 (1::nat)) - MAX_POINTS) (replicate 2000 (1::nat))
      = replicate 1080 1"
    by (simp only: drop_replicate length_replicate MAX_POINTS_def) simp
  have room: "length (TRACK_LAT demo_track) < MAX_POINTS"
    by (simp add: demo_track_def MAX_POINTS_def)
  have ap: "appended_samples demo_env ?calls
      = demo_sample\<lparr>s_lat := NaN\<rparr> # replicate 1080 demo_sample"
    unfolding appended_samples_def
    by (simp only: List.map_filter_simps prod.case demo_tick_sample option.case
        map_filter_replicate [of "\<lambda>(io, n_intervals, track_data). tick_sample demo_env io"
          "(demo_io, 2::nat, demo_store)" demo_sample, simplified prod.case,
          OF demo_tick_sample(1)])
  have dl: "drop (length (demo_sample\<lparr>s_lat := NaN\<rparr> # replicate 1080 demo_sample) - MAX_POINTS)
      (map s_lat (demo_sample\<lparr>s_lat := NaN\<rparr> # replicate 1080 demo_sample))
      = replicate 1080 (Finite (1 / 8))"
  proof -
    have "length (demo_sample\<lparr>s_lat := NaN\<rparr> # replicate 1080 demo_sample) - MAX_POINTS = Suc 0"
      by (simp only: length_Cons length_replicate MAX_POINTS_def)
    moreover have "s_lat demo_sample = Finite (1 / 8)" by (simp add: demo_sample_def)
    ultimately show ?thesis
      by (simp only: list.map map_replicate drop_Suc_Cons drop_0)
  qed
  from demo_tick obtain out where
    t: "update_map demo_env demo_io 3 demo_store demo_track
        = (Inr out, append_sample demo_track demo_sample)"
    by blast
  note b = track_buffer_bounded_fifo
    [of MAX_POINTS "replicate 2000 (1::nat)" 7 "replicate 1080 (0::nat)" demo_track demo_env
      demo_io 3 demo_store out demo_sample ?calls]
  from track_buffer_bounded_fifo [of 3 "[1, 2, 3, 4::nat]"]
  have s: "appends 3 [1, 2, 3, 4::nat] = [2, 3, 4]" by simp
  from b have "appends MAX_POINTS (replicate 2000 (1::nat))
      = drop (length (replicate 2000 (1::nat)) - MAX_POINTS) (replicate 2000 (1::nat))"
    and "length (replicate 1080 (0::nat)) = MAX_POINTS \<longrightarrow>
      deque_append MAX_POINTS (replicate 1080 (0::nat)) 7 = tl (replicate 1080 (0::nat)) @ [7]"
    and "length (replicate 1080 (0::nat)) \<le> MAX_POINTS \<longrightarrow>
      length (deque_append MAX_POINTS (replicate 1080 (0::nat)) 7) \<le> MAX_POINTS"
    and "track_ok demo_track \<longrightarrow>
      track_ok (snd (update_map demo_env demo_io 3 demo_store demo_track))"
    and "length (TRACK_LAT demo_track) < MAX_POINTS \<longrightarrow>
      TRACK_LAT (append_sample demo_track demo_sample) = TRACK_LAT demo_track @ [s_lat demo_sample]"
    and "TRACK_LAT (run_ticks demo_env ?calls initial_track)
      = drop (length (appended_samples demo_env ?calls) - MAX_POINTS)
          (map s_lat (appended_samples demo_env ?calls))"
    by blast+
  moreover have "TRACK_LAT demo_track @ [s_lat demo_sample]
      = [Finite 1, Finite 2, Finite (1 / 8)]"
    by (simp add: demo_track_def demo_sample_def)
  ultimately show ?thesis
    using len tl dr demo_track_ok(1) t s room ap dl by (simp only: le_refl simp_thms snd_conv)
qed

text \<open>
  Claim C2. The segments of a frame, concatenated in order, are the frame itself, so each
  row is in exactly one segment; every segment is non-empty and all its rows have the
  visibility of its first row; two neighbouring segments differ in visibility; and an
  empty frame has no segments.
\<close>

theorem split_segments_partition:
  "concat (split_segments df) = df
   \<and> (\<forall>seg \<in> set (split_segments df). seg \<noteq> [] \<and> (\<forall>r \<in> set seg. row_vis r = seg_vis seg))
   \<and> (\<forall>i. Suc i < length (split_segments df) \<longrightarrow>
          seg_vis (split_segments df ! i) \<noteq> seg_vis (split_segments df ! Suc i))
   \<and> split_segments [] = []"
proof -
  have "\<forall>seg \<in> set (split_segments df). seg \<noteq> [] \<and> (\<forall>r \<in> set seg. row_vis r = seg_vis seg)"
    using split_segments_props(2) [of df] by (simp add: list_all_iff homogeneous_def)
  moreover have "\<forall>i. Suc i < length (split_segments df) \<longrightarrow>
      seg_vis (split_segments df ! i) \<noteq> seg_vis (split_segments df ! Suc i)"
    using split_segments_props(3) [of df] by (simp add: distinct_adj_conv_nth)
  moreover have "split_segments [] = []" by (simp add: split_segments_def)
  ultimately show ?thesis using split_segments_props(1) [of df] by simp
qed

theorem split_segments_partition_witness:
  "split_segments [row_a, row_b, row_c] = [[row_a, row_b], [row_c]]
   \<and> concat (split_segments [row_a, row_b, row_c]) = [row_a, row_b, row_c]
   \<and> row_vis row_a = seg_vis [row_a, row_b] \<and> row_vis row_b = seg_vis [row_a, row_b]
   \<and> row_vis row_c = seg_vis [row_c]
   \<and> seg_vis [row_a, row_b] \<noteq> seg_vis [row_c]"
proof -
  let ?df = "[row_a, row_b, row_c]"
  note p = split_segments_partition [of ?df]
  have "Suc 0 < length (split_segments ?df)" by (simp add: split_segments_abc)
  with p have "seg_vis (split_segments ?df ! 0) \<noteq> seg_vis (split_segments ?df ! Suc 0)"
    by blast
  then have n: "seg_vis [row_a, row_b] \<noteq> seg_vis [row_c]" by (simp add: split_segments_abc)
  from p have "\<forall>seg \<in> set (split_segments ?df).
      seg \<noteq> [] \<and> (\<forall>r \<in> set seg. row_vis r = seg_vis seg)" by blast
  then have "\<forall>seg \<in> set [[row_a, row_b], [row_c]].
      seg \<noteq> [] \<and> (\<forall>r \<in> set seg. row_vis r = seg_vis seg)"
    by (simp only: split_segments_abc)
  then have h: "row_vis row_a = seg_vis [row_a, row_b]" "row_vis row_b = seg_vis [row_a, row_b]"
    "row_vis row_c = seg_vis [row_c]"
    by simp_all
  from p have "concat (split_segments ?df) = ?df" by blast
  with n h show ?thesis using split_segments_abc by blast
qed

text \<open>
  Claim C3. When \<^verbatim>\<open>get_iss_telemetry\<close> returns \<^verbatim>\<open>None\<close>, the tick raises
  \<^verbatim>\<open>PreventUpdate\<close>, so there is no figure, no readout and no store value, and the three
  deques are what they were before the tick. The fetch returns \<^verbatim>\<open>None\<close> on a timeout,
  on a connection failure and on a response with a status from 400 to 599. When the fetch
  raises instead, the exception leaves the tick and the deques are unchanged as well.
\<close>

theorem fetch_failure_no_update:
  "(get_iss_telemetry (telemetry io) = Inr None \<longrightarrow>
      update_map env io n track_data g = (Inl PreventUpdate, g))
   \<and> (telemetry io = RaisesTimeout \<or> telemetry io = RaisesConnectionError
        \<or> (\<exists>status body. telemetry io = Response status body \<and> 400 \<le> status \<and> status < 600) \<longrightarrow>
      get_iss_telemetry (telemetry io) = Inr None)
   \<and> (get_iss_telemetry (telemetry io) = Inl e \<longrightarrow>
      update_map env io n track_data g = (Inl e, g))"
  by (auto simp: update_map_no_sample update_map_fetch_raises get_iss_telemetry_timeout
      get_iss_telemetry_connection get_iss_telemetry_http_error)

theorem fetch_failure_no_update_witness:
  "update_map demo_env (demo_io\<lparr>telemetry := RaisesTimeout\<rparr>) 3 demo_store demo_track
     = (Inl PreventUpdate, demo_track)
   \<and> update_map demo_env (demo_io\<lparr>telemetry := RaisesConnectionError\<rparr>) 3 demo_store demo_track
     = (Inl PreventUpdate, demo_track)
   \<and> update_map demo_env (demo_io\<lparr>telemetry := Response 503 None\<rparr>) 3 demo_store demo_track
     = (Inl PreventUpdate, demo_track)
   \<and> get_iss_telemetry (telemetry (demo_io\<lparr>telemetry := Response 200 None\<rparr>))
     = Inl JSONDecodeError
   \<and> update_map demo_env (demo_io\<lparr>telemetry := Response 200 None\<rparr>) 3 demo_store demo_track
     = (Inl JSONDecodeError, demo_track)"
proof -
  have a: "get_iss_telemetry (telemetry (demo_io\<lparr>telemetry := Response 200 None\<rparr>))
      = Inl JSONDecodeError"
    by (simp add: get_iss_telemetry_not_json)
  show ?thesis
    using fetch_failure_no_update
        [of "demo_io\<lparr>telemetry := RaisesTimeout\<rparr>" demo_env 3 demo_store demo_track]
      fetch_failure_no_update
        [of "demo_io\<lparr>telemetry := RaisesConnectionError\<rparr>" demo_env 3 demo_store demo_track]
      fetch_failure_no_update
        [of "demo_io\<lparr>telemetry := Response 503 None\<rparr>" demo_env 3 demo_store demo_track]
      fetch_failure_no_update
        [of "demo_io\<lparr>telemetry := Response 200 None\<rparr>" demo_env 3 demo_store demo_track
          JSONDecodeError] a
    by simp
qed

text \<open>
  Claim C4, as the code has it. The country lookup absorbs every request error: on a
  timeout, a connection failure or another request exception, on a status from 400 to
  599 and on a body that is not JSON it yields \<^verbatim>\<open>("Ocean", "red")\<close> and does not raise,
  and so it does when the country code is absent, \<^verbatim>\<open>null\<close>, empty or \<^verbatim>\<open>"??"\<close>. For any
  other text as country code the label is the name the table has for \<^verbatim>\<open>code.upper()\<close>
  and, when the table has none, the code itself as received; the colour is \<^verbatim>\<open>"red"\<close> in
  every case. An exception that does leave the lookup is never a request error.
\<close>

theorem country_lookup_fallback:
  "country_lookup env RaisesTimeout = Inr (''Ocean'', ''red'')
   \<and> country_lookup env RaisesConnectionError = Inr (''Ocean'', ''red'')
   \<and> country_lookup env RaisesOther = Inr (''Ocean'', ''red'')
   \<and> (400 \<le> status \<and> status < 600 \<longrightarrow>
        country_lookup env (Response status body) = Inr (''Ocean'', ''red''))
   \<and> country_lookup env (Response status None) = Inr (''Ocean'', ''red'')
   \<and> (code = None \<or> code = Some JNull \<or> code = Some (JStr '''') \<or> code = Some (JStr ''??'') \<longrightarrow>
        country_lookup env (Response status (Some (Object \<lparr>country_code = code\<rparr>)))
          = Inr (''Ocean'', ''red''))
   \<and> (s \<noteq> '''' \<and> s \<noteq> ''??'' \<and> \<not> (400 \<le> status \<and> status < 600) \<longrightarrow>
        country_lookup env (Response status (Some (Object \<lparr>country_code = Some (JStr s)\<rparr>)))
          = Inr (case countries env (str_upper env s) of Some name \<Rightarrow> name | None \<Rightarrow> s, ''red''))
   \<and> (country_lookup env r = Inr (country_name, country_color) \<longrightarrow> country_color = ''red'')
   \<and> (country_lookup env r = Inl e \<longrightarrow> \<not> is_RequestException e)"
proof -
  have "country_lookup env r = Inl e \<longrightarrow> \<not> is_RequestException e"
    by (auto dest: country_lookup_raises simp: is_RequestException_def)
  moreover have "country_lookup env r = Inr (country_name, country_color) \<longrightarrow>
      country_color = ''red''"
    by (auto dest: country_lookup_color)
  moreover have "code = None \<or> code = Some JNull \<or> code = Some (JStr '''')
      \<or> code = Some (JStr ''??'') \<longrightarrow>
      country_lookup env (Response status (Some (Object \<lparr>country_code = code\<rparr>)))
        = Inr (''Ocean'', ''red'')"
    using country_lookup_no_code [of code env status] by blast
  moreover have "s \<noteq> '''' \<and> s \<noteq> ''??'' \<and> \<not> (400 \<le> status \<and> status < 600) \<longrightarrow>
      country_lookup env (Response status (Some (Object \<lparr>country_code = Some (JStr s)\<rparr>)))
        = Inr (case countries env (str_upper env s) of Some name \<Rightarrow> name | None \<Rightarrow> s, ''red'')"
    using country_lookup_code [of s status env] by blast
  moreover have "400 \<le> status \<and> status < 600 \<longrightarrow>
      country_lookup env (Response status body) = Inr (''Ocean'', ''red'')"
    using country_lookup_http_error [of status env body] by blast
  ultimately show ?thesis
    using country_lookup_raises_get [of env] country_lookup_not_json [of env status]
    by (intro conjI) assumption+
qed

theorem country_lookup_fallback_witness:
  "country_lookup demo_env (Response 503 None) = Inr (''Ocean'', ''red'')
   \<and> country_lookup demo_env (Response 200 (Some (Object \<lparr>country_code = Some (JStr ''??'')\<rparr>)))
       = Inr (''Ocean'', ''red'')
   \<and> str_upper demo_env ''fr'' = ''FR''
   \<and> country_lookup demo_env (Response 200 (Some (Object \<lparr>country_code = Some (JStr ''fr'')\<rparr>)))
       = Inr (''France'', ''red'')
   \<and> country_lookup demo_env (Response 200 (Some NonObject)) = Inl AttributeError
   \<and> \<not> is_RequestException AttributeError"
proof -
  have u: "countries demo_env (str_upper demo_env ''fr'') = Some ''France''"
    by (simp add: demo_upper) (simp add: demo_env_def)
  have a: "country_lookup demo_env (Response 200 (Some NonObject)) = Inl AttributeError"
    by (simp add: country_lookup_def country_lookup_try_def requests_get_def
        raise_for_status_def resp_json_def is_RequestException_def)
  note t1 = country_lookup_fallback
    [of demo_env 503 None "Some (JStr ''??'')" "''fr''" "Response 200 (Some NonObject)"
      "''''" "''''" AttributeError]
  note t2 = country_lookup_fallback
    [of demo_env 200 None "Some (JStr ''??'')" "''fr''" "Response 200 (Some NonObject)"
      "''''" "''''" AttributeError]
  from t1 have "country_lookup demo_env (Response 503 None) = Inr (''Ocean'', ''red'')"
    by blast
  moreover from t2 have
    "country_lookup demo_env (Response 200 (Some (Object \<lparr>country_code = Some (JStr ''??'')\<rparr>)))
       = Inr (''Ocean'', ''red'')"
    by blast
  moreover from t2 have
    "country_lookup demo_env (Response 200 (Some (Object \<lparr>country_code = Some (JStr ''fr'')\<rparr>)))
       = Inr (case countries demo_env (str_upper demo_env ''fr'') of
                Some name \<Rightarrow> name | None \<Rightarrow> ''fr'',
              ''red'')"
    by simp
  moreover from t2 a have "\<not> is_RequestException AttributeError" by blast
  ultimately show ?thesis using a u demo_upper(1) by simp
qed

text \<open>
  Claim C4 as the specification states it fails for a country code that the table does not
  know: the label is then the code, not \<^verbatim>\<open>"Ocean"\<close>.
\<close>

theorem country_lookup_unknown_code_counterexample:
  "countries demo_env (str_upper demo_env ''zz'') = None
   \<and> country_lookup demo_env (Response 200 (Some (Object \<lparr>country_code = Some (JStr ''zz'')\<rparr>)))
       = Inr (''zz'', ''red'')
   \<and> country_lookup demo_env (Response 200 (Some (Object \<lparr>country_code = Some (JStr ''zz'')\<rparr>)))
       \<noteq> Inr (''Ocean'', ''red'')"
proof -
  have u: "countries demo_env (str_upper demo_env ''zz'') = None"
    by (simp add: demo_upper) (simp add: demo_env_def)
  then show ?thesis by (simp add: country_lookup_code)
qed

text \<open>
  Claim C5, as the code has it. On a timeout or a connection failure, and on a response
  with a status from 400 to 599, the fetch returns \<^verbatim>\<open>None\<close> and does not raise. On a
  response with any other status whose body is a JSON object it returns the fields as
  received, with no check that they are present or numeric: a field that is missing, or
  that \<^verbatim>\<open>float\<close> rejects, makes the tick handler raise \<^verbatim>\<open>KeyError\<close>, \<^verbatim>\<open>ValueError\<close>,
  \<^verbatim>\<open>TypeError\<close> or, for an integer too large for a float, \<^verbatim>\<open>OverflowError\<close>, with the
  deques unchanged.
\<close>

theorem get_iss_telemetry_outcomes:
  "get_iss_telemetry RaisesTimeout = Inr None
   \<and> get_iss_telemetry RaisesConnectionError = Inr None
   \<and> (400 \<le> status \<and> status < 600 \<longrightarrow> get_iss_telemetry (Response status body) = Inr None)
   \<and> (\<not> (400 \<le> status \<and> status < 600) \<longrightarrow>
        get_iss_telemetry (Response status (Some (Object data))) = Inr (Some data))
   \<and> (get_iss_telemetry (telemetry io) = Inr (Some df) \<longrightarrow>
        (latitude df = None \<longrightarrow>
           update_map env io n track_data g = (Inl (KeyError ''latitude''), g))
        \<and> (latitude df = Some (JInt i) \<and> float_of_int env i = None \<longrightarrow>
             update_map env io n track_data g = (Inl OverflowError, g))
        \<and> (read_sample env df = Inl e \<longrightarrow>
             update_map env io n track_data g = (Inl e, g)
             \<and> ((\<exists>name. e = KeyError name) \<or> e = ValueError \<or> e = TypeError
                  \<or> e = OverflowError)))"
proof -
  have "400 \<le> status \<and> status < 600 \<longrightarrow> get_iss_telemetry (Response status body) = Inr None"
    using get_iss_telemetry_http_error [of status body] by blast
  moreover have "\<not> (400 \<le> status \<and> status < 600) \<longrightarrow>
      get_iss_telemetry (Response status (Some (Object data))) = Inr (Some data)"
    using get_iss_telemetry_json [of status "Object data"] by (simp add: one_row_frame_def)
  moreover have "get_iss_telemetry (telemetry io) = Inr (Some df) \<longrightarrow>
      (latitude df = None \<longrightarrow>
         update_map env io n track_data g = (Inl (KeyError ''latitude''), g))
      \<and> (latitude df = Some (JInt i) \<and> float_of_int env i = None \<longrightarrow>
           update_map env io n track_data g = (Inl OverflowError, g))
      \<and> (read_sample env df = Inl e \<longrightarrow>
           update_map env io n track_data g = (Inl e, g)
           \<and> ((\<exists>name. e = KeyError name) \<or> e = ValueError \<or> e = TypeError
                \<or> e = OverflowError))"
    using update_map_read_raises [of io df env _ n track_data g]
      read_sample_missing [of df env] read_sample_overflow [of df i env]
      read_sample_exn [of env df e]
    by blast
  ultimately show ?thesis
    using get_iss_telemetry_timeout get_iss_telemetry_connection by (intro conjI) assumption+
qed

theorem get_iss_telemetry_outcomes_witness:
  "get_iss_telemetry (Response 503 None) = Inr None
   \<and> get_iss_telemetry (Response 200 (Some (Object demo_data))) = Inr (Some demo_data)
   \<and> latitude no_fields = None
   \<and> read_sample demo_env no_fields = Inl (KeyError ''latitude'')
   \<and> update_map demo_env (demo_io\<lparr>telemetry := Response 200 (Some (Object no_fields))\<rparr>)
        3 demo_store demo_track = (Inl (KeyError ''latitude''), demo_track)
   \<and> read_sample demo_env huge_data = Inl OverflowError
   \<and> update_map demo_env (demo_io\<lparr>telemetry := Response 200 (Some (Object huge_data))\<rparr>)
        3 demo_store demo_track = (Inl OverflowError, demo_track)"
proof -
  have l: "latitude no_fields = None" by (simp add: no_fields_def)
  then have r: "read_sample demo_env no_fields = Inl (KeyError ''latitude'')"
    by (rule read_sample_missing)
  from get_iss_telemetry_outcomes
    [of 200 None demo_data "demo_io\<lparr>telemetry := Response 200 (Some (Object huge_data))\<rparr>"
      huge_data demo_env 3 demo_store demo_track 0 OverflowError]
    data_fetch [of huge_data] huge_read
  have h: "update_map demo_env (demo_io\<lparr>telemetry := Response 200 (Some (Object huge_data))\<rparr>)
        3 demo_store demo_track = (Inl OverflowError, demo_track)"
    by blast
  from get_iss_telemetry_outcomes [of 503 None demo_data]
  have "get_iss_telemetry (Response 503 None) = Inr None" by simp
  moreover from get_iss_telemetry_outcomes [of 200 None demo_data]
  have "get_iss_telemetry (Response 200 (Some (Object demo_data))) = Inr (Some demo_data)"
    by simp
  moreover from get_iss_telemetry_outcomes
    [of 200 None demo_data "demo_io\<lparr>telemetry := Response 200 (Some (Object no_fields))\<rparr>"
      no_fields demo_env 3 demo_store demo_track 0 "KeyError ''latitude''"] no_fields_fetch l r
  have "update_map demo_env (demo_io\<lparr>telemetry := Response 200 (Some (Object no_fields))\<rparr>)
        3 demo_store demo_track = (Inl (KeyError ''latitude''), demo_track)"
    by blast
  ultimately show ?thesis using l r h huge_read by blast
qed

text \<open>
  Claim C5 as the specification states it fails on a response with status 200 whose JSON
  object has none of the required fields: the fetch returns the object as a success, and
  the missing field raises \<^verbatim>\<open>KeyError\<close> in the tick handler.
\<close>

theorem get_iss_telemetry_unvalidated_counterexample:
  "get_iss_telemetry (Response 200 (Some (Object no_fields))) = Inr (Some no_fields)
   \<and> get_iss_telemetry (Response 200 (Some (Object no_fields))) \<noteq> Inr None
   \<and> latitude no_fields = None \<and> longitude no_fields = None \<and> altitude no_fields = None
   \<and> velocity no_fields = None \<and> visibility no_fields = None
   \<and> update_map demo_env (demo_io\<lparr>telemetry := Response 200 (Some (Object no_fields))\<rparr>)
        3 demo_store demo_track = (Inl (KeyError ''latitude''), demo_track)"
proof -
  have "update_map demo_env (demo_io\<lparr>telemetry := Response 200 (Some (Object no_fields))\<rparr>)
        3 demo_store demo_track = (Inl (KeyError ''latitude''), demo_track)"
    using no_fields_fetch
    by (rule update_map_read_raises) (simp add: read_sample_missing no_fields_def)
  then show ?thesis
    by (simp add: get_iss_telemetry_json one_row_frame_def) (simp add: no_fields_def)
qed


text \<open>
  Claim C6, as the code has it. In a tick that has read its sample and passed the country
  lookup, the segments of the track are those of the deques after the append. When all
  their visibilities are texts, the tick returns a figure whose line layers are what the
  segments contribute one by one, in order: a segment whose visibility is \<^verbatim>\<open>daylight\<close>,
  \<^verbatim>\<open>visible\<close> or \<^verbatim>\<open>eclipsed\<close> contributes one line in the colour of \<^verbatim>\<open>color_map\<close>, and
  a segment with any other text as visibility contributes nothing, without an error; such
  a segment is still one of the segments, and its rows are still in the deques and in the
  store value returned. When the visibility of some segment is a JSON array or object, the
  tick raises \<^verbatim>\<open>TypeError\<close>, after the sample has been appended.
\<close>

theorem unknown_visibility_dropped:
  fixes g :: track and s :: sample
  defines "segs \<equiv> split_segments (track_rows (append_sample g s))"
  assumes "track_ok g"
    and "get_iss_telemetry (telemetry io) = Inr (Some df)"
    and "read_sample env df = Inr s"
    and "country_lookup env (geocode io) = Inr loc"
  shows "(list_all (\<lambda>seg. is_text (seg_vis seg)) segs \<longrightarrow>
        (\<exists>out vis.
           s_vis s = VStr vis
           \<and> update_map env io n track_data g = (Inr out, append_sample g s)
           \<and> fig_data (out_figure out) =
               concat (map segment_layer segs)
               @ [main_marker (s_lat s) (s_lon s),
                  inset_marker (s_lat s) (s_lon s)
                    (if vis = ''daylight'' then ''white''
                     else if vis = ''visible'' then ''#FFFF00''
                     else if vis = ''eclipsed'' then ''red'' else ''#FFFFFF'')]
           \<and> out_store out = \<lparr>store_lat = TRACK_LAT (append_sample g s),
                               store_lon = TRACK_LON (append_sample g s),
                               store_vis = TRACK_VIS (append_sample g s)\<rparr>))
      \<and> (\<not> list_all (\<lambda>seg. is_text (seg_vis seg)) segs \<longrightarrow>
           update_map env io n track_data g = (Inl TypeError, append_sample g s))
      \<and> list_all (\<lambda>seg. is_text (seg_vis seg)) segs = texts_only (append_sample g s)
      \<and> (\<forall>seg \<in> set segs.
            is_text (seg_vis seg)
            \<and> seg_vis seg \<notin> {VStr ''daylight'', VStr ''visible'', VStr ''eclipsed''} \<longrightarrow>
            segment_layer seg = [])
      \<and> (\<forall>seg \<in> set segs.
            seg_vis seg \<in> {VStr ''daylight'', VStr ''visible'', VStr ''eclipsed''} \<longrightarrow>
            segment_layer seg =
              [line_trace seg (if seg_vis seg = VStr ''daylight'' then ''white''
                               else if seg_vis seg = VStr ''visible'' then ''#FFFF00''
                               else ''red'')])
      \<and> length (concat (map segment_layer segs)) =
          length (filter
            (\<lambda>seg. seg_vis seg \<in> {VStr ''daylight'', VStr ''visible'', VStr ''eclipsed''}) segs)
      \<and> concat segs = track_rows (append_sample g s)"
proof -
  have ok: "track_ok (append_sample g s)" using assms(2) by (rule track_ok_append)
  have t: "list_all (\<lambda>seg. is_text (seg_vis seg)) segs = texts_only (append_sample g s)"
    unfolding segs_def using ok by (simp only: segments_texts track_rows_texts)
  have a: "list_all (\<lambda>seg. is_text (seg_vis seg)) segs \<longrightarrow>
        (\<exists>out vis.
           s_vis s = VStr vis
           \<and> update_map env io n track_data g = (Inr out, append_sample g s)
           \<and> fig_data (out_figure out) =
               concat (map segment_layer segs)
               @ [main_marker (s_lat s) (s_lon s),
                  inset_marker (s_lat s) (s_lon s)
                    (if vis = ''daylight'' then ''white''
                     else if vis = ''visible'' then ''#FFFF00''
                     else if vis = ''eclipsed'' then ''red'' else ''#FFFFFF'')]
           \<and> out_store out = \<lparr>store_lat = TRACK_LAT (append_sample g s),
                               store_lon = TRACK_LON (append_sample g s),
                               store_vis = TRACK_VIS (append_sample g s)\<rparr>)"
  proof
    assume "list_all (\<lambda>seg. is_text (seg_vis seg)) segs"
    with t have texts: "texts_only (append_sample g s)" by simp
    then obtain vis where vis: "s_vis s = VStr vis" by (blast dest: texts_only_append_vis)
    from update_map_ok_figure [OF assms(2) texts assms(3,4) vis assms(5), of n track_data]
    show "\<exists>out vis.
           s_vis s = VStr vis
           \<and> update_map env io n track_data g = (Inr out, append_sample g s)
           \<and> fig_data (out_figure out) =
               concat (map segment_layer segs)
               @ [main_marker (s_lat s) (s_lon s),
                  inset_marker (s_lat s) (s_lon s)
                    (if vis = ''daylight'' then ''white''
                     else if vis = ''visible'' then ''#FFFF00''
                     else if vis = ''eclipsed'' then ''red'' else ''#FFFFFF'')]
           \<and> out_store out = \<lparr>store_lat = TRACK_LAT (append_sample g s),
                               store_lon = TRACK_LON (append_sample g s),
                               store_vis = TRACK_VIS (append_sample g s)\<rparr>"
      unfolding segs_def using vis by blast
  qed
  have b: "\<not> list_all (\<lambda>seg. is_text (seg_vis seg)) segs \<longrightarrow>
      update_map env io n track_data g = (Inl TypeError, append_sample g s)"
    using t update_map_unhashable [OF assms(2) _ assms(3-5), of n track_data] by blast
  have d: "\<forall>seg \<in> set segs.
      is_text (seg_vis seg)
      \<and> seg_vis seg \<notin> {VStr ''daylight'', VStr ''visible'', VStr ''eclipsed''} \<longrightarrow>
      segment_layer seg = []"
    by (simp add: segment_layer_cases)
  have k: "\<forall>seg \<in> set segs.
      seg_vis seg \<in> {VStr ''daylight'', VStr ''visible'', VStr ''eclipsed''} \<longrightarrow>
      segment_layer seg =
        [line_trace seg (if seg_vis seg = VStr ''daylight'' then ''white''
                         else if seg_vis seg = VStr ''visible'' then ''#FFFF00''
                         else ''red'')]"
    by (auto simp: segment_layer_cases)
  have c: "concat segs = track_rows (append_sample g s)"
    unfolding segs_def by (rule split_segments_props(1))
  from a b t d k c segment_layers_count [of segs] show ?thesis by (intro conjI) assumption+
qed

theorem unknown_visibility_dropped_witness:
  "track_ok demo_track
   \<and> get_iss_telemetry (telemetry demo_io) = Inr (Some demo_data)
   \<and> read_sample demo_env demo_data = Inr demo_sample
   \<and> country_lookup demo_env (geocode demo_io) = Inr (''France'', ''red'')
   \<and> split_segments (track_rows (append_sample demo_track demo_sample)) =
       [[\<lparr>row_lat = Finite 1, row_lon = Finite 10, row_vis = VStr ''daylight''\<rparr>],
        [\<lparr>row_lat = Finite 2, row_lon = Finite 20, row_vis = VStr ''penumbra''\<rparr>],
        [\<lparr>row_lat = Finite (1 / 8), row_lon = Finite (- 3 / 8), row_vis = VStr ''eclipsed''\<rparr>]]
   \<and> (\<exists>out.
      update_map demo_env demo_io 3 demo_store demo_track
        = (Inr out, append_sample demo_track demo_sample)
      \<and> fig_data (out_figure out) =
          [line_trace [\<lparr>row_lat = Finite 1, row_lon = Finite 10, row_vis = VStr ''daylight''\<rparr>]
             ''white'',
           line_trace [\<lparr>row_lat = Finite (1 / 8), row_lon = Finite (- 3 / 8),
                        row_vis = VStr ''eclipsed''\<rparr>] ''red'',
           main_marker (Finite (1 / 8)) (Finite (- 3 / 8)),
           inset_marker (Finite (1 / 8)) (Finite (- 3 / 8)) ''red'']
      \<and> store_vis (out_store out) = [VStr ''daylight'', VStr ''penumbra'', VStr ''eclipsed''])
   \<and> segment_layer [\<lparr>row_lat = Finite 2, row_lon = Finite 20, row_vis = VStr ''penumbra''\<rparr>] = []
   \<and> track_ok array_track
   \<and> \<not> texts_only (append_sample array_track demo_sample)
   \<and> update_map demo_env demo_io 4 demo_store array_track
       = (Inl TypeError, append_sample array_track demo_sample)"
proof -
  let ?segs = "split_segments (track_rows (append_sample demo_track demo_sample))"
  have l: "concat (map segment_layer ?segs) =
      [line_trace [\<lparr>row_lat = Finite 1, row_lon = Finite 10, row_vis = VStr ''daylight''\<rparr>]
         ''white'',
       line_trace [\<lparr>row_lat = Finite (1 / 8), row_lon = Finite (- 3 / 8),
                    row_vis = VStr ''eclipsed''\<rparr>] ''red'']"
    by (simp add: demo_segments segment_layer_cases seg_vis_def)
  have v: "s_lat demo_sample = Finite (1 / 8)" "s_lon demo_sample = Finite (- 3 / 8)"
    by (simp_all add: demo_sample_def)
  have texts: "list_all (\<lambda>seg. is_text (seg_vis seg)) ?segs"
    by (simp add: demo_segments seg_vis_def is_text_def)
  note w = unknown_visibility_dropped
    [OF demo_track_ok(1) demo_fetch demo_read demo_country, of 3 demo_store]
  from w texts obtain out vis where
    vis: "s_vis demo_sample = VStr vis"
    and u: "update_map demo_env demo_io 3 demo_store demo_track
        = (Inr out, append_sample demo_track demo_sample)"
    and f: "fig_data (out_figure out) =
        concat (map segment_layer ?segs)
        @ [main_marker (s_lat demo_sample) (s_lon demo_sample),
           inset_marker (s_lat demo_sample) (s_lon demo_sample)
             (if vis = ''daylight'' then ''white''
              else if vis = ''visible'' then ''#FFFF00''
              else if vis = ''eclipsed'' then ''red'' else ''#FFFFFF'')]"
    and st: "out_store out = \<lparr>store_lat = TRACK_LAT (append_sample demo_track demo_sample),
                          store_lon = TRACK_LON (append_sample demo_track demo_sample),
                          store_vis = TRACK_VIS (append_sample demo_track demo_sample)\<rparr>"
    by blast
  from vis have e: "vis = ''eclipsed''" by (simp add: demo_sample_def)
  from w have d: "\<forall>seg \<in> set ?segs.
        is_text (seg_vis seg)
        \<and> seg_vis seg \<notin> {VStr ''daylight'', VStr ''visible'', VStr ''eclipsed''} \<longrightarrow>
        segment_layer seg = []"
    by blast
  then have p: "segment_layer
      [\<lparr>row_lat = Finite 2, row_lon = Finite 20, row_vis = VStr ''penumbra''\<rparr>] = []"
    by (simp add: demo_segments seg_vis_def is_text_def)
  from f have f': "fig_data (out_figure out) =
      [line_trace [\<lparr>row_lat = Finite 1, row_lon = Finite 10, row_vis = VStr ''daylight''\<rparr>]
         ''white'',
       line_trace [\<lparr>row_lat = Finite (1 / 8), row_lon = Finite (- 3 / 8),
                    row_vis = VStr ''eclipsed''\<rparr>] ''red'',
       main_marker (Finite (1 / 8)) (Finite (- 3 / 8)),
       inset_marker (Finite (1 / 8)) (Finite (- 3 / 8)) ''red'']"
    unfolding l v e by simp
  from st have st': "store_vis (out_store out)
      = [VStr ''daylight'', VStr ''penumbra'', VStr ''eclipsed'']"
    by (simp add: demo_append)
  note w2 = unknown_visibility_dropped
    [OF demo_track_ok(2) demo_fetch demo_read demo_country, of 4 demo_store]
  from w2 demo_texts_only(6)
  have r: "update_map demo_env demo_io 4 demo_store array_track
      = (Inl TypeError, append_sample array_track demo_sample)"
    by blast
  from u f' st' have "\<exists>out.
      update_map demo_env demo_io 3 demo_store demo_track
        = (Inr out, append_sample demo_track demo_sample)
      \<and> fig_data (out_figure out) =
          [line_trace [\<lparr>row_lat = Finite 1, row_lon = Finite 10, row_vis = VStr ''daylight''\<rparr>]
             ''white'',
           line_trace [\<lparr>row_lat = Finite (1 / 8), row_lon = Finite (- 3 / 8),
                        row_vis = VStr ''eclipsed''\<rparr>] ''red'',
           main_marker (Finite (1 / 8)) (Finite (- 3 / 8)),
           inset_marker (Finite (1 / 8)) (Finite (- 3 / 8)) ''red'']
      \<and> store_vis (out_store out) = [VStr ''daylight'', VStr ''penumbra'', VStr ''eclipsed'']"
    by blast
  then show ?thesis
    using p r demo_segments demo_track_ok demo_fetch demo_read demo_country demo_texts_only(6)
    by (intro conjI) assumption+
qed

text \<open>
  Claim C6 as the specification states it fails for a segment whose visibility is a JSON
  array: after a tick whose telemetry had the visibility \<^verbatim>\<open>["daylight"]\<close>, the deques
  hold that value, it is none of the three known visibilities, and the next tick raises
  \<^verbatim>\<open>TypeError\<close> on its segment instead of passing it over.
\<close>

theorem unhashable_visibility_counterexample:
  "snd (update_map demo_env (demo_io\<lparr>telemetry := Response 200 (Some (Object array_data))\<rparr>)
        3 demo_store demo_track) = array_track
   \<and> split_segments (track_rows (append_sample array_track demo_sample)) =
       [[\<lparr>row_lat = Finite 1, row_lon = Finite 10, row_vis = VStr ''daylight''\<rparr>],
        [\<lparr>row_lat = Finite 2, row_lon = Finite 20, row_vis = VStr ''penumbra''\<rparr>],
        [\<lparr>row_lat = Finite (1 / 8), row_lon = Finite (- 3 / 8),
          row_vis = VArr [VStr ''daylight'']\<rparr>],
        [\<lparr>row_lat = Finite (1 / 8), row_lon = Finite (- 3 / 8), row_vis = VStr ''eclipsed''\<rparr>]]
   \<and> seg_vis [\<lparr>row_lat = Finite (1 / 8), row_lon = Finite (- 3 / 8),
               row_vis = VArr [VStr ''daylight'']\<rparr>] = VArr [VStr ''daylight'']
   \<and> VArr [VStr ''daylight''] \<noteq> VStr ''daylight''
   \<and> VArr [VStr ''daylight''] \<noteq> VStr ''visible''
   \<and> VArr [VStr ''daylight''] \<noteq> VStr ''eclipsed''
   \<and> update_map demo_env demo_io 4 demo_store array_track
       = (Inl TypeError, append_sample array_track demo_sample)"
  by (simp add: array_tick array_track_reached array_segments array_track_tick seg_vis_def)


text \<open>
  Claim C8, as the code has it. When the tick returns its outputs, the four readouts are
  the latitude, the longitude, the altitude and the velocity of the sample read from the
  telemetry, each converted by \<^verbatim>\<open>float\<close> and formatted with \<^verbatim>\<open>.2f\<close>. The text of a
  finite float has two decimals, its sign is that of the float, and the number it denotes
  is the float rounded to hundredths, half to even, so it differs from the float by at
  most a half of a hundredth; the text of \<^verbatim>\<open>-0.0\<close> is \<^verbatim>\<open>-0.00\<close>. The texts of the
  infinities and of \<^verbatim>\<open>nan\<close> are \<^verbatim>\<open>inf\<close>, \<^verbatim>\<open>-inf\<close> and \<^verbatim>\<open>nan\<close>, without decimals.
  When the fetch returns \<^verbatim>\<open>None\<close> the tick raises \<^verbatim>\<open>PreventUpdate\<close> and returns no
  readout.
\<close>

theorem readouts_two_decimals:
  "(fst (update_map env io n track_data g) = Inr out \<longrightarrow>
      (\<exists>df lat lon alt vel.
          get_iss_telemetry (telemetry io) = Inr (Some df)
          \<and> float_column env (latitude df) ''latitude'' = Inr lat
          \<and> float_column env (longitude df) ''longitude'' = Inr lon
          \<and> float_column env (altitude df) ''altitude'' = Inr alt
          \<and> float_column env (velocity df) ''velocity'' = Inr vel
          \<and> readouts (fst (update_map env io n track_data g))
              = Inr (format_2f lat, format_2f lon, format_2f alt, format_2f vel)))
   \<and> two_decimals (format_2f (Finite x))
   \<and> (take 1 (format_2f (Finite x)) = ''-'') = (x < 0)
   \<and> value_2f (format_2f (Finite x))
       = (if x < 0 then - 1 else 1) * (of_int (round_half_even (\<bar>x\<bar> * 100)) / 100)
   \<and> \<bar>value_2f (format_2f (Finite x)) - x\<bar> \<le> 1 / 200
   \<and> format_2f NegZero = ''-0.00'' \<and> two_decimals (format_2f NegZero)
   \<and> format_2f PosInf = ''inf'' \<and> format_2f NegInf = ''-inf'' \<and> format_2f NaN = ''nan''
   \<and> \<not> two_decimals (format_2f PosInf) \<and> \<not> two_decimals (format_2f NegInf)
   \<and> \<not> two_decimals (format_2f NaN)
   \<and> (get_iss_telemetry (telemetry io) = Inr None \<longrightarrow>
      fst (update_map env io n track_data g) = Inl PreventUpdate)"
proof -
  have a: "fst (update_map env io n track_data g) = Inr out \<longrightarrow>
      (\<exists>df lat lon alt vel.
          get_iss_telemetry (telemetry io) = Inr (Some df)
          \<and> float_column env (latitude df) ''latitude'' = Inr lat
          \<and> float_column env (longitude df) ''longitude'' = Inr lon
          \<and> float_column env (altitude df) ''altitude'' = Inr alt
          \<and> float_column env (velocity df) ''velocity'' = Inr vel
          \<and> readouts (fst (update_map env io n track_data g))
              = Inr (format_2f lat, format_2f lon, format_2f alt, format_2f vel))"
  proof
    assume r: "fst (update_map env io n track_data g) = Inr out"
    from update_map_InrD [OF this] obtain df s loc where
      f: "get_iss_telemetry (telemetry io) = Inr (Some df)" and s: "read_sample env df = Inr s"
      and o: "out_lat out = format_2f (s_lat s)" "out_lon out = format_2f (s_lon s)"
        "out_alt out = format_2f (s_alt s)" "out_vel out = format_2f (s_vel s)"
      by blast
    have "readouts (fst (update_map env io n track_data g))
        = Inr (format_2f (s_lat s), format_2f (s_lon s), format_2f (s_alt s),
               format_2f (s_vel s))"
      using r o by (simp add: readouts_def)
    then show "\<exists>df lat lon alt vel.
          get_iss_telemetry (telemetry io) = Inr (Some df)
          \<and> float_column env (latitude df) ''latitude'' = Inr lat
          \<and> float_column env (longitude df) ''longitude'' = Inr lon
          \<and> float_column env (altitude df) ''altitude'' = Inr alt
          \<and> float_column env (velocity df) ''velocity'' = Inr vel
          \<and> readouts (fst (update_map env io n track_data g))
              = Inr (format_2f lat, format_2f lon, format_2f alt, format_2f vel)"
      using f read_sample_fields(1-4) [OF s] by blast
  qed
  have h: "(of_nat (hundredths x) :: rat) = of_int (round_half_even (\<bar>x\<bar> * 100))"
    using round_half_even_nonneg [of "\<bar>x\<bar> * 100"] by (simp add: hundredths_def)
  have v: "value_2f (format_2f (Finite x))
      = (if x < 0 then - 1 else 1) * (of_int (round_half_even (\<bar>x\<bar> * 100)) / 100)"
    by (simp only: format_2f_names value_2f_format_finite h)
  have c: "\<bar>value_2f (format_2f (Finite x)) - x\<bar> \<le> 1 / 200"
    by (simp only: format_2f_names value_2f_close)
  have t: "two_decimals (format_2f (Finite x))"
    by (simp only: format_2f_names two_decimals_format_finite)
  have sg: "(take 1 (format_2f (Finite x)) = ''-'') = (x < 0)"
    by (simp only: format_2f_names format_finite_sign)
  have z: "two_decimals (format_2f NegZero)"
    by (simp add: format_2f_names two_decimals_def is_digit_def)
  have nt: "\<not> two_decimals (format_2f PosInf)" "\<not> two_decimals (format_2f NegInf)"
    "\<not> two_decimals (format_2f NaN)"
    by (simp_all only: format_2f_names not_two_decimals_names not_False_eq_True)
  have p: "get_iss_telemetry (telemetry io) = Inr None \<longrightarrow>
      fst (update_map env io n track_data g) = Inl PreventUpdate"
    by (simp add: update_map_no_sample)
  from a t sg v c z nt p format_2f_names(1-4) show ?thesis by (intro conjI) assumption+
qed

theorem readouts_two_decimals_witness:
  "readouts (fst (update_map demo_env demo_io 3 demo_store demo_track))
     = Inr (''0.12'', ''-0.38'', ''12.50'', ''13.50'')
   \<and> format_2f (Finite (1 / 8)) = ''0.12'' \<and> two_decimals ''0.12''
   \<and> value_2f ''0.12'' = 12 / 100
   \<and> \<bar>value_2f ''0.12'' - 1 / 8\<bar> \<le> 1 / 200
   \<and> format_2f (Finite (- (3 / 8))) = ''-0.38'' \<and> two_decimals ''-0.38''
   \<and> value_2f ''-0.38'' = - (38 / 100)
   \<and> fst (update_map demo_env (demo_io\<lparr>telemetry := RaisesTimeout\<rparr>) 3 demo_store demo_track)
       = Inl PreventUpdate"
proof -
  from demo_tick obtain out where
    t: "fst (update_map demo_env demo_io 3 demo_store demo_track) = Inr out"
    and o: "out_lat out = ''0.12''" "out_lon out = ''-0.38''" "out_alt out = ''12.50''"
      "out_vel out = ''13.50''"
    by auto
  have n: "get_iss_telemetry (telemetry (demo_io\<lparr>telemetry := RaisesTimeout\<rparr>)) = Inr None"
    by (simp add: get_iss_telemetry_timeout)
  have f: "format_2f (Finite (1 / 8)) = ''0.12''" "format_2f (Finite (- (3 / 8))) = ''-0.38''"
    using demo_formats(1,2) by (simp_all add: demo_sample_def)
  have r1: "round_half_even (\<bar>1 / 8\<bar> * 100) = 12" "round_half_even (\<bar>- (3 / 8)\<bar> * 100) = 38"
    by code_simp+
  note w1 = readouts_two_decimals [of demo_env demo_io 3 demo_store demo_track out "1 / 8"]
  note w2 = readouts_two_decimals [of demo_env demo_io 3 demo_store demo_track out "- (3 / 8)"]
  note w3 = readouts_two_decimals
    [of demo_env "demo_io\<lparr>telemetry := RaisesTimeout\<rparr>" 3 demo_store demo_track]
  from w1 have "two_decimals ''0.12''" "value_2f ''0.12'' = 12 / 100"
    "\<bar>value_2f ''0.12'' - 1 / 8\<bar> \<le> 1 / 200"
    unfolding f r1 by simp_all
  moreover from w2 have "two_decimals ''-0.38''" "value_2f ''-0.38'' = - (38 / 100)"
    unfolding f r1 by simp_all
  moreover from w3 n
  have "fst (update_map demo_env (demo_io\<lparr>telemetry := RaisesTimeout\<rparr>) 3 demo_store demo_track)
      = Inl PreventUpdate"
    by blast
  moreover from w1 t o
  have "readouts (fst (update_map demo_env demo_io 3 demo_store demo_track))
     = Inr (''0.12'', ''-0.38'', ''12.50'', ''13.50'')"
    by (simp add: readouts_def)
  ultimately show ?thesis using f by (intro conjI) assumption+
qed

text \<open>
  Claim C8 as the specification states it fails for a telemetry whose latitude is
  \<^verbatim>\<open>NaN\<close>, which the JSON parser of Python accepts: the tick returns its outputs, and the
  latitude readout is the text \<^verbatim>\<open>nan\<close>, which has no decimals.
\<close>

theorem readout_nan_counterexample:
  "latitude nan_data = Some (JFloat NaN)
   \<and> readouts (fst (update_map demo_env
        (demo_io\<lparr>telemetry := Response 200 (Some (Object nan_data))\<rparr>) 3 demo_store demo_track))
       = Inr (''nan'', ''-0.38'', ''12.50'', ''13.50'')
   \<and> \<not> two_decimals ''nan''"
  by (simp add: nan_tick not_two_decimals_names) (simp add: nan_data_def demo_data_def)

text \<open>
  Claim C9. The value of the \<^verbatim>\<open>track_data\<close> argument, the state of the store that Dash
  passes in, has no influence on the tick: with the same deques and the same replies,
  \<^verbatim>\<open>update_map\<close> returns the same figure, readouts and store value and leaves the same
  deques, whatever \<^verbatim>\<open>track_data\<close> and the interval count are.
\<close>

theorem update_map_ignores_store:
  "update_map env io n track_data g = update_map env io n' track_data' g"
  by (simp add: update_map_def)


text \<open>
  Claim C10, as the code has it. A tick that has read its sample and passed the country
  lookup returns a figure when the visibilities in the deques after the append are all
  texts, the visibility of the current sample among them, be it one of the three keys of
  \<^verbatim>\<open>color_map\<close> or any other text: after the line layers come exactly two more traces,
  the main marker and the inset marker, both at the latitude and longitude of the sample,
  and the colour of the inset marker is the colour \<^verbatim>\<open>color_map\<close> gives for a known
  visibility and \<^verbatim>\<open>#FFFFFF\<close> for any other. When the visibility of the current sample
  is a JSON array or object, the tick raises \<^verbatim>\<open>TypeError\<close> after the append and no
  marker is emitted.
\<close>

theorem markers_for_every_visibility:
  assumes "track_ok g"
    and "get_iss_telemetry (telemetry io) = Inr (Some df)"
    and "read_sample env df = Inr s"
    and "country_lookup env (geocode io) = Inr loc"
  shows "(texts_only (append_sample g s) \<longrightarrow>
      (\<exists>out layers vis.
        s_vis s = VStr vis
        \<and> update_map env io n track_data g = (Inr out, append_sample g s)
        \<and> fig_data (out_figure out) =
            layers @ [main_marker (s_lat s) (s_lon s),
                      inset_marker (s_lat s) (s_lon s)
                        (if vis = ''daylight'' then ''white''
                         else if vis = ''visible'' then ''#FFFF00''
                         else if vis = ''eclipsed'' then ''red'' else ''#FFFFFF'')]
        \<and> list_all (\<lambda>t. sg_mode t = ''lines'') layers
        \<and> main_marker (s_lat s) (s_lon s) =
            \<lparr>sg_lat = [s_lat s], sg_lon = [s_lon s], sg_mode = ''text'', sg_text = [santa],
             sg_textfont_size = Some 28, sg_line = None, sg_marker = None,
             sg_showlegend = False, sg_geo = ''geo''\<rparr>
        \<and> inset_marker (s_lat s) (s_lon s)
              (if vis = ''daylight'' then ''white''
               else if vis = ''visible'' then ''#FFFF00''
               else if vis = ''eclipsed'' then ''red'' else ''#FFFFFF'') =
            \<lparr>sg_lat = [s_lat s], sg_lon = [s_lon s], sg_mode = ''markers'', sg_text = [],
             sg_textfont_size = None, sg_line = None,
             sg_marker = Some (8, if vis = ''daylight'' then ''white''
                                  else if vis = ''visible'' then ''#FFFF00''
                                  else if vis = ''eclipsed'' then ''red''
                                  else ''#FFFFFF''),
             sg_showlegend = False, sg_geo = ''geo2''\<rparr>))
    \<and> (texts_only g \<and> is_text (s_vis s) \<longrightarrow> texts_only (append_sample g s))
    \<and> (\<not> is_text (s_vis s) \<longrightarrow>
         update_map env io n track_data g = (Inl TypeError, append_sample g s))
    \<and> (\<not> texts_only (append_sample g s) \<longrightarrow>
         update_map env io n track_data g = (Inl TypeError, append_sample g s))"
proof -
  let ?layers = "concat (map segment_layer (split_segments (track_rows (append_sample g s))))"
  have a: "texts_only (append_sample g s) \<longrightarrow>
      (\<exists>out layers vis.
        s_vis s = VStr vis
        \<and> update_map env io n track_data g = (Inr out, append_sample g s)
        \<and> fig_data (out_figure out) =
            layers @ [main_marker (s_lat s) (s_lon s),
                      inset_marker (s_lat s) (s_lon s)
                        (if vis = ''daylight'' then ''white''
                         else if vis = ''visible'' then ''#FFFF00''
                         else if vis = ''eclipsed'' then ''red'' else ''#FFFFFF'')]
        \<and> list_all (\<lambda>t. sg_mode t = ''lines'') layers
        \<and> main_marker (s_lat s) (s_lon s) =
            \<lparr>sg_lat = [s_lat s], sg_lon = [s_lon s], sg_mode = ''text'', sg_text = [santa],
             sg_textfont_size = Some 28, sg_line = None, sg_marker = None,
             sg_showlegend = False, sg_geo = ''geo''\<rparr>
        \<and> inset_marker (s_lat s) (s_lon s)
              (if vis = ''daylight'' then ''white''
               else if vis = ''visible'' then ''#FFFF00''
               else if vis = ''eclipsed'' then ''red'' else ''#FFFFFF'') =
            \<lparr>sg_lat = [s_lat s], sg_lon = [s_lon s], sg_mode = ''markers'', sg_text = [],
             sg_textfont_size = None, sg_line = None,
             sg_marker = Some (8, if vis = ''daylight'' then ''white''
                                  else if vis = ''visible'' then ''#FFFF00''
                                  else if vis = ''eclipsed'' then ''red''
                                  else ''#FFFFFF''),
             sg_showlegend = False, sg_geo = ''geo2''\<rparr>)"
  proof
    assume texts: "texts_only (append_sample g s)"
    then obtain vis where vis: "s_vis s = VStr vis" by (blast dest: texts_only_append_vis)
    from update_map_ok_figure [OF assms(1) texts assms(2,3) vis assms(4), of n track_data]
    obtain out where
      u: "update_map env io n track_data g = (Inr out, append_sample g s)"
      and f: "fig_data (out_figure out) =
          ?layers @ [main_marker (s_lat s) (s_lon s),
                     inset_marker (s_lat s) (s_lon s)
                       (if vis = ''daylight'' then ''white''
                        else if vis = ''visible'' then ''#FFFF00''
                        else if vis = ''eclipsed'' then ''red'' else ''#FFFFFF'')]"
      by blast
    have l: "list_all (\<lambda>t. sg_mode t = ''lines'') ?layers" by (rule segment_layers_lines)
    have m: "main_marker (s_lat s) (s_lon s) =
        \<lparr>sg_lat = [s_lat s], sg_lon = [s_lon s], sg_mode = ''text'', sg_text = [santa],
         sg_textfont_size = Some 28, sg_line = None, sg_marker = None,
         sg_showlegend = False, sg_geo = ''geo''\<rparr>"
      by (simp add: main_marker_def)
    have i: "inset_marker (s_lat s) (s_lon s)
          (if vis = ''daylight'' then ''white''
           else if vis = ''visible'' then ''#FFFF00''
           else if vis = ''eclipsed'' then ''red'' else ''#FFFFFF'') =
        \<lparr>sg_lat = [s_lat s], sg_lon = [s_lon s], sg_mode = ''markers'', sg_text = [],
         sg_textfont_size = None, sg_line = None,
         sg_marker = Some (8, if vis = ''daylight'' then ''white''
                              else if vis = ''visible'' then ''#FFFF00''
                              else if vis = ''eclipsed'' then ''red''
                              else ''#FFFFFF''),
         sg_showlegend = False, sg_geo = ''geo2''\<rparr>"
      by (simp add: inset_marker_def)
    from vis u f l m i show "\<exists>out layers vis.
        s_vis s = VStr vis
        \<and> update_map env io n track_data g = (Inr out, append_sample g s)
        \<and> fig_data (out_figure out) =
            layers @ [main_marker (s_lat s) (s_lon s),
                      inset_marker (s_lat s) (s_lon s)
                        (if vis = ''daylight'' then ''white''
                         else if vis = ''visible'' then ''#FFFF00''
                         else if vis = ''eclipsed'' then ''red'' else ''#FFFFFF'')]
        \<and> list_all (\<lambda>t. sg_mode t = ''lines'') layers
        \<and> main_marker (s_lat s) (s_lon s) =
            \<lparr>sg_lat = [s_lat s], sg_lon = [s_lon s], sg_mode = ''text'', sg_text = [santa],
             sg_textfont_size = Some 28, sg_line = None, sg_marker = None,
             sg_showlegend = False, sg_geo = ''geo''\<rparr>
        \<and> inset_marker (s_lat s) (s_lon s)
              (if vis = ''daylight'' then ''white''
               else if vis = ''visible'' then ''#FFFF00''
               else if vis = ''eclipsed'' then ''red'' else ''#FFFFFF'') =
            \<lparr>sg_lat = [s_lat s], sg_lon = [s_lon s], sg_mode = ''markers'', sg_text = [],
             sg_textfont_size = None, sg_line = None,
             sg_marker = Some (8, if vis = ''daylight'' then ''white''
                                  else if vis = ''visible'' then ''#FFFF00''
                                  else if vis = ''eclipsed'' then ''red''
                                  else ''#FFFFFF''),
             sg_showlegend = False, sg_geo = ''geo2''\<rparr>"
      by blast
  qed
  have b: "texts_only g \<and> is_text (s_vis s) \<longrightarrow> texts_only (append_sample g s)"
    by (simp add: texts_only_append)
  have d: "\<not> texts_only (append_sample g s) \<longrightarrow>
      update_map env io n track_data g = (Inl TypeError, append_sample g s)"
    using update_map_unhashable [OF assms(1) _ assms(2-4), of n track_data] by blast
  have c: "\<not> is_text (s_vis s) \<longrightarrow>
      update_map env io n track_data g = (Inl TypeError, append_sample g s)"
    using d not_texts_only_append [of s g] by blast
  from a b c d show ?thesis by (intro conjI) assumption+
qed

theorem markers_for_every_visibility_witness:
  "track_ok demo_track \<and> texts_only demo_track
   \<and> get_iss_telemetry (telemetry demo_io) = Inr (Some demo_data)
   \<and> read_sample demo_env demo_data = Inr demo_sample
   \<and> country_lookup demo_env (geocode demo_io) = Inr (''France'', ''red'')
   \<and> is_text (s_vis demo_sample)
   \<and> texts_only (append_sample demo_track demo_sample)
   \<and> (\<exists>out layers.
      update_map demo_env demo_io 3 demo_store demo_track
        = (Inr out, append_sample demo_track demo_sample)
      \<and> fig_data (out_figure out) =
          layers @ [main_marker (Finite (1 / 8)) (Finite (- (3 / 8))),
                    inset_marker (Finite (1 / 8)) (Finite (- (3 / 8))) ''red''])
   \<and> (\<exists>out layers.
      update_map demo_env
        (demo_io\<lparr>telemetry :=
           Response 200 (Some (Object (demo_data\<lparr>visibility := Some (VStr ''penumbra'')\<rparr>)))\<rparr>)
        3 demo_store demo_track
        = (Inr out, append_sample demo_track (demo_sample\<lparr>s_vis := VStr ''penumbra''\<rparr>))
      \<and> fig_data (out_figure out) =
          layers @ [main_marker (Finite (1 / 8)) (Finite (- (3 / 8))),
                    inset_marker (Finite (1 / 8)) (Finite (- (3 / 8))) ''#FFFFFF''])
   \<and> \<not> is_text (s_vis (demo_sample\<lparr>s_vis := VArr [VStr ''daylight'']\<rparr>))
   \<and> update_map demo_env (demo_io\<lparr>telemetry := Response 200 (Some (Object array_data))\<rparr>)
        3 demo_store demo_track
       = (Inl TypeError,
          append_sample demo_track (demo_sample\<lparr>s_vis := VArr [VStr ''daylight'']\<rparr>))"
proof -
  let ?pen = "demo_data\<lparr>visibility := Some (VStr ''penumbra'')\<rparr>"
  have v: "s_lat demo_sample = Finite (1 / 8)" "s_lon demo_sample = Finite (- (3 / 8))"
    "s_lat (demo_sample\<lparr>s_vis := VStr ''penumbra''\<rparr>) = Finite (1 / 8)"
    "s_lon (demo_sample\<lparr>s_vis := VStr ''penumbra''\<rparr>) = Finite (- (3 / 8))"
    by (simp_all add: demo_sample_def)
  have it: "is_text (s_vis demo_sample)" by (simp add: demo_vis is_text_def)
  have na: "\<not> is_text (s_vis (demo_sample\<lparr>s_vis := VArr [VStr ''daylight'']\<rparr>))"
    by (simp add: is_text_def)
  note w1 = markers_for_every_visibility
    [OF demo_track_ok(1) demo_fetch demo_read demo_country, of 3 demo_store]
  note w2 = markers_for_every_visibility
    [OF demo_track_ok(1) data_fetch [of ?pen] penumbra_read
      data_country [of "Response 200 (Some (Object ?pen))"], of 3 demo_store]
  note w3 = markers_for_every_visibility
    [OF demo_track_ok(1) data_fetch [of array_data] array_read
      data_country [of "Response 200 (Some (Object array_data))"], of 3 demo_store]
  from w1 demo_texts_only(1) it have t1: "texts_only (append_sample demo_track demo_sample)"
    by blast
  with w1 obtain out layers vis where
    "s_vis demo_sample = VStr vis"
    "update_map demo_env demo_io 3 demo_store demo_track
        = (Inr out, append_sample demo_track demo_sample)"
    "fig_data (out_figure out) =
        layers @ [main_marker (s_lat demo_sample) (s_lon demo_sample),
                  inset_marker (s_lat demo_sample) (s_lon demo_sample)
                    (if vis = ''daylight'' then ''white''
                     else if vis = ''visible'' then ''#FFFF00''
                     else if vis = ''eclipsed'' then ''red'' else ''#FFFFFF'')]"
    by blast
  then have r1: "\<exists>out layers.
      update_map demo_env demo_io 3 demo_store demo_track
        = (Inr out, append_sample demo_track demo_sample)
      \<and> fig_data (out_figure out) =
          layers @ [main_marker (Finite (1 / 8)) (Finite (- (3 / 8))),
                    inset_marker (Finite (1 / 8)) (Finite (- (3 / 8))) ''red'']"
    unfolding v by (auto simp: demo_sample_def)
  from w2 demo_texts_only(5) obtain out layers vis where
    "s_vis (demo_sample\<lparr>s_vis := VStr ''penumbra''\<rparr>) = VStr vis"
    "update_map demo_env (demo_io\<lparr>telemetry := Response 200 (Some (Object ?pen))\<rparr>)
        3 demo_store demo_track
        = (Inr out, append_sample demo_track (demo_sample\<lparr>s_vis := VStr ''penumbra''\<rparr>))"
    "fig_data (out_figure out) =
        layers @ [main_marker (s_lat (demo_sample\<lparr>s_vis := VStr ''penumbra''\<rparr>))
                    (s_lon (demo_sample\<lparr>s_vis := VStr ''penumbra''\<rparr>)),
                  inset_marker (s_lat (demo_sample\<lparr>s_vis := VStr ''penumbra''\<rparr>))
                    (s_lon (demo_sample\<lparr>s_vis := VStr ''penumbra''\<rparr>))
                    (if vis = ''daylight'' then ''white''
                     else if vis = ''visible'' then ''#FFFF00''
                     else if vis = ''eclipsed'' then ''red'' else ''#FFFFFF'')]"
    by blast
  then have r2: "\<exists>out layers.
      update_map demo_env (demo_io\<lparr>telemetry := Response 200 (Some (Object ?pen))\<rparr>)
        3 demo_store demo_track
        = (Inr out, append_sample demo_track (demo_sample\<lparr>s_vis := VStr ''penumbra''\<rparr>))
      \<and> fig_data (out_figure out) =
          layers @ [main_marker (Finite (1 / 8)) (Finite (- (3 / 8))),
                    inset_marker (Finite (1 / 8)) (Finite (- (3 / 8))) ''#FFFFFF'']"
    unfolding v by auto
  from w3 na
  have r3: "update_map demo_env (demo_io\<lparr>telemetry := Response 200 (Some (Object array_data))\<rparr>)
        3 demo_store demo_track
       = (Inl TypeError,
          append_sample demo_track (demo_sample\<lparr>s_vis := VArr [VStr ''daylight'']\<rparr>))"
    by blast
  from r1 r2 r3 t1 it na show ?thesis
    using demo_track_ok(1) demo_texts_only(1) demo_fetch demo_read demo_country
    by (intro conjI) assumption+
qed

text \<open>
  Claim C10 as the specification states it fails for a current sample whose visibility is
  the JSON array \<^verbatim>\<open>["daylight"]\<close>, a value outside the three known categories: the
  sample is read and appended to deques that held texts only, and the tick then raises
  \<^verbatim>\<open>TypeError\<close>, so it returns no figure and neither marker.
\<close>

theorem markers_unhashable_counterexample:
  "visibility array_data = Some (VArr [VStr ''daylight''])
   \<and> track_ok demo_track \<and> texts_only demo_track
   \<and> read_sample demo_env array_data = Inr (demo_sample\<lparr>s_vis := VArr [VStr ''daylight'']\<rparr>)
   \<and> fst (update_map demo_env (demo_io\<lparr>telemetry := Response 200 (Some (Object array_data))\<rparr>)
        3 demo_store demo_track) = Inl TypeError
   \<and> snd (update_map demo_env (demo_io\<lparr>telemetry := Response 200 (Some (Object array_data))\<rparr>)
        3 demo_store demo_track) = array_track"
  by (simp add: array_tick array_track_reached array_read demo_track_ok demo_texts_only)
    (simp add: array_data_def)

end
